theory Spec2Isabelle
  imports Main
begin

section \<open>JavaScript values\<close>

text \<open>
  The services and routes handle untyped JavaScript data: provider response bodies, the
  \<open>clientData\<close> object, \<open>process.env\<close>. Such data is a \<open>jsval\<close>. An object is the list
  of its own properties in enumeration order. The code never computes with a number, so
  a number is held by its text, as \<open>Number.prototype.toString\<close> writes it: \<open>0\<close> for
  both zeros, \<open>NaN\<close>, \<open>1e+21\<close>.

  A string is a \<open>string\<close>: the bytes of its text in UTF-8. A JavaScript string may hold
  a surrogate that is not part of a pair, which UTF-8 cannot write; such a code unit is
  held in the three bytes \<open>ED A0..BF 80..BF\<close> that the scheme of UTF-8 gives a code
  point of that value. A pair of surrogates is held as the four bytes of its code point.
\<close>

datatype jsval =
    JUndefined
  | JNull
  | JBool bool
  | JNum string
  | JStr string
  | JArr "jsval list"
  | JObj "(string \<times> jsval) list"

text \<open>Truthiness, as \<open>if (v)\<close>, \<open>!v\<close> and \<open>a || b\<close> test it.\<close>

fun truthy :: "jsval \<Rightarrow> bool" where
  "truthy JUndefined = False"
| "truthy JNull = False"
| "truthy (JBool b) = b"
| "truthy (JNum n) = (n \<noteq> ''0'' \<and> n \<noteq> ''NaN'')"
| "truthy (JStr s) = (s \<noteq> [])"
| "truthy (JArr xs) = True"
| "truthy (JObj kvs) = True"

definition js_or :: "jsval \<Rightarrow> jsval \<Rightarrow> jsval" where
  "js_or a b = (if truthy a then a else b)"

text \<open>Property read \<open>v?.k\<close>: undefined on undefined and null, and on a missing property.\<close>

fun opt_get :: "jsval \<Rightarrow> string \<Rightarrow> jsval" where
  "opt_get (JObj kvs) k = (case map_of kvs k of Some v \<Rightarrow> v | None \<Rightarrow> JUndefined)"
| "opt_get v k = JUndefined"

text \<open>Index read \<open>v?.[0]\<close>.\<close>

fun opt_first :: "jsval \<Rightarrow> jsval" where
  "opt_first (JArr xs) = (case xs of [] \<Rightarrow> JUndefined | x # rest \<Rightarrow> x)"
| "opt_first (JObj kvs) = (case map_of kvs ''0'' of Some v \<Rightarrow> v | None \<Rightarrow> JUndefined)"
| "opt_first (JStr s) = (case s of [] \<Rightarrow> JUndefined | c # rest \<Rightarrow> JStr [c])"
| "opt_first v = JUndefined"

text \<open>\<open>process.env\<close>: a variable is a string or undefined; the empty string is falsy.\<close>

type_synonym process_env = "string \<Rightarrow> string option"

definition env_val :: "process_env \<Rightarrow> string \<Rightarrow> jsval" where
  "env_val penv k = (case penv k of None \<Rightarrow> JUndefined | Some s \<Rightarrow> JStr s)"

definition env_set :: "process_env \<Rightarrow> string \<Rightarrow> bool" where
  "env_set penv k = truthy (env_val penv k)"

definition env_or :: "process_env \<Rightarrow> string \<Rightarrow> string \<Rightarrow> string" where
  "env_or penv k d = (case penv k of None \<Rightarrow> d | Some s \<Rightarrow> if s = [] then d else s)"

section \<open>Strings: conversion, JSON text, trimming and base64\<close>

definition digit_char :: "nat \<Rightarrow> char" where
  "digit_char d = ''0123456789'' ! d"

function show_nat :: "nat \<Rightarrow> string" where
  "show_nat n = (if n < 10 then [digit_char n] else show_nat (n div 10) @ [digit_char (n mod 10)])"
  by pat_completeness auto
termination
  by (relation "measure id") auto

declare show_nat.simps [simp del]

fun commas :: "string list \<Rightarrow> string" where
  "commas [] = []"
| "commas [x] = x"
| "commas (x # y # rest) = x @ '','' @ commas (y # rest)"

text \<open>\<open>String(v)\<close>, the conversion a template literal \<open>`${v}`\<close> applies.\<close>

fun js_toString :: "jsval \<Rightarrow> string" where
  "js_toString JUndefined = ''undefined''"
| "js_toString JNull = ''null''"
| "js_toString (JBool b) = (if b then ''true'' else ''false'')"
| "js_toString (JNum n) = n"
| "js_toString (JStr s) = s"
| "js_toString (JArr xs) =
     commas (map (\<lambda>x. if x = JUndefined \<or> x = JNull then [] else js_toString x) xs)"
| "js_toString (JObj kvs) = ''[object Object]''"

text \<open>
  A surrogate that is not part of a pair, at the head of a string: the bytes
  \<open>ED A0..BF 80..BF\<close>. The code unit is \<open>D000 + unit_low\<close>.
\<close>

definition lone_surrogate :: "char \<Rightarrow> char \<Rightarrow> char \<Rightarrow> bool" where
  "lone_surrogate c1 c2 c3 =
     (c1 = CHR 0xED \<and> 160 \<le> (of_char c2 :: nat) \<and> (of_char c2 :: nat) \<le> 191
      \<and> 128 \<le> (of_char c3 :: nat) \<and> (of_char c3 :: nat) \<le> 191)"

definition unit_low :: "char \<Rightarrow> char \<Rightarrow> nat" where
  "unit_low c2 c3 = ((of_char c2 :: nat) mod 64) * 64 + (of_char c3 :: nat) mod 64"

fun has_lone_surrogate :: "string \<Rightarrow> bool" where
  "has_lone_surrogate (c1 # c2 # c3 # rest) =
     (lone_surrogate c1 c2 c3 \<or> has_lone_surrogate (c2 # c3 # rest))"
| "has_lone_surrogate short = False"

text \<open>
  \<open>Buffer.from(s, 'utf8')\<close>: the bytes of the text, with U+FFFD, \<open>EF BF BD\<close>, in the
  place of each surrogate that is not part of a pair.
\<close>

fun utf8_bytes :: "string \<Rightarrow> string" where
  "utf8_bytes (c1 # c2 # c3 # rest) =
     (if lone_surrogate c1 c2 c3 then [CHR 0xEF, CHR 0xBF, CHR 0xBD] @ utf8_bytes rest
      else c1 # utf8_bytes (c2 # c3 # rest))"
| "utf8_bytes short = short"

text \<open>
  \<open>JSON.stringify\<close>. A string is quoted with \<open>"\<close> and \<open>\\<close> escaped, the control
  characters written as \<open>\b \t \n \f \r\<close> or \<open>\u00XX\<close> and a surrogate that is not
  part of a pair as \<open>\udXXX\<close>; a number that is not finite is written \<open>null\<close>; a
  property whose value is undefined is left out of an object, and undefined inside an
  array is written \<open>null\<close>.
\<close>

definition hex_char :: "nat \<Rightarrow> char" where
  "hex_char d = (if d < 10 then digit_char d else char_of (of_char CHR ''a'' + (d - 10) :: nat))"

definition json_escape :: "char \<Rightarrow> string" where
  "json_escape c =
     (if c = CHR 0x22 then [CHR 0x5C, CHR 0x22]
      else if c = CHR 0x5C then [CHR 0x5C, CHR 0x5C]
      else if c = CHR 0x08 then [CHR 0x5C, CHR ''b'']
      else if c = CHR 0x09 then [CHR 0x5C, CHR ''t'']
      else if c = CHR 0x0A then [CHR 0x5C, CHR ''n'']
      else if c = CHR 0x0C then [CHR 0x5C, CHR ''f'']
      else if c = CHR 0x0D then [CHR 0x5C, CHR ''r'']
      else if (of_char c :: nat) < 32 then
        [CHR 0x5C, CHR ''u'', CHR ''0'', CHR ''0'',
         hex_char ((of_char c :: nat) div 16), hex_char ((of_char c :: nat) mod 16)]
      else [c])"

fun json_chars :: "string \<Rightarrow> string" where
  "json_chars (c1 # c2 # c3 # rest) =
     (if lone_surrogate c1 c2 c3 then
        [CHR 0x5C, CHR ''u'', CHR ''d'', hex_char (unit_low c2 c3 div 256),
         hex_char (unit_low c2 c3 div 16 mod 16), hex_char (unit_low c2 c3 mod 16)]
        @ json_chars rest
      else json_escape c1 @ json_chars (c2 # c3 # rest))"
| "json_chars (c # rest) = json_escape c @ json_chars rest"
| "json_chars [] = []"

definition json_quote :: "string \<Rightarrow> string" where
  "json_quote s = [CHR 0x22] @ json_chars s @ [CHR 0x22]"

fun json_text :: "jsval \<Rightarrow> string" where
  "json_text JUndefined = ''null''"
| "json_text JNull = ''null''"
| "json_text (JBool b) = (if b then ''true'' else ''false'')"
| "json_text (JNum n) =
     (if n = ''NaN'' \<or> n = ''Infinity'' \<or> n = ''-Infinity'' then ''null'' else n)"
| "json_text (JStr s) = json_quote s"
| "json_text (JArr xs) = ''['' @ commas (map json_text xs) @ '']''"
| "json_text (JObj kvs) =
     ''{'' @ commas (map (\<lambda>kv. json_quote (fst kv) @ '':'' @ json_text (snd kv))
                     (filter (\<lambda>kv. snd kv \<noteq> JUndefined) kvs)) @ ''}''"

text \<open>\<open>JSON.stringify(o)\<close> for an object \<open>o\<close>, the only use the services make of it.\<close>

definition JSON_stringify :: "(string \<times> jsval) list \<Rightarrow> string" where
  "JSON_stringify obj = json_text (JObj obj)"

text \<open>
  \<open>String.prototype.trim\<close> removes white space and line terminators from both ends. In
  UTF-8 these are the one-byte characters 09 to 0D and 20 and the encodings of
  U+00A0, U+1680, U+2000 to U+200A, U+2028, U+2029, U+202F, U+205F, U+3000 and U+FEFF.
\<close>

definition white_space :: "string list" where
  "white_space =
     [[CHR 0x09], [CHR 0x0A], [CHR 0x0B], [CHR 0x0C], [CHR 0x0D], [CHR 0x20],
      [CHR 0xC2, CHR 0xA0], [CHR 0xE1, CHR 0x9A, CHR 0x80],
      [CHR 0xE2, CHR 0x80, CHR 0x80], [CHR 0xE2, CHR 0x80, CHR 0x81],
      [CHR 0xE2, CHR 0x80, CHR 0x82], [CHR 0xE2, CHR 0x80, CHR 0x83],
      [CHR 0xE2, CHR 0x80, CHR 0x84], [CHR 0xE2, CHR 0x80, CHR 0x85],
      [CHR 0xE2, CHR 0x80, CHR 0x86], [CHR 0xE2, CHR 0x80, CHR 0x87],
      [CHR 0xE2, CHR 0x80, CHR 0x88], [CHR 0xE2, CHR 0x80, CHR 0x89],
      [CHR 0xE2, CHR 0x80, CHR 0x8A], [CHR 0xE2, CHR 0x80, CHR 0xA8],
      [CHR 0xE2, CHR 0x80, CHR 0xA9], [CHR 0xE2, CHR 0x80, CHR 0xAF],
      [CHR 0xE2, CHR 0x81, CHR 0x9F], [CHR 0xE3, CHR 0x80, CHR 0x80],
      [CHR 0xEF, CHR 0xBB, CHR 0xBF]]"

definition is_prefix :: "string \<Rightarrow> string \<Rightarrow> bool" where
  "is_prefix p s = (take (length p) s = p)"

text \<open>The number of bytes of the white-space character \<open>s\<close> starts with, 0 if none.\<close>

definition leading_space :: "string list \<Rightarrow> string \<Rightarrow> nat" where
  "leading_space spaces s =
     (case filter (\<lambda>p. is_prefix p s) spaces of [] \<Rightarrow> 0 | p # rest \<Rightarrow> length p)"

function strip :: "string list \<Rightarrow> string \<Rightarrow> string" where
  "strip spaces s =
     (if leading_space spaces s = 0 \<or> s = [] then s
      else strip spaces (drop (leading_space spaces s) s))"
  by pat_completeness auto
termination
  by (relation "measure (\<lambda>(spaces, s). length s)") auto

declare strip.simps [simp del]

definition js_trim :: "string \<Rightarrow> string" where
  "js_trim s = rev (strip (map rev white_space) (rev (strip white_space s)))"

text \<open>
  \<open>Buffer.from(s, 'utf8').toString('base64')\<close>: three bytes give four characters of the
  alphabet, and a last group of one or two bytes is padded with \<open>=\<close>.
\<close>

definition b64_alphabet :: string where
  "b64_alphabet = ''ABCDEFGHIJKLMNOPQRSTUVWXYZabcdefghijklmnopqrstuvwxyz0123456789+/''"

definition b64_char :: "nat \<Rightarrow> char" where
  "b64_char n = b64_alphabet ! (n mod 64)"

fun base64_bytes :: "nat list \<Rightarrow> string" where
  "base64_bytes [] = []"
| "base64_bytes [a] = [b64_char (a div 4), b64_char ((a mod 4) * 16), CHR ''='', CHR ''='']"
| "base64_bytes [a, b] =
     [b64_char (a div 4), b64_char ((a mod 4) * 16 + b div 16), b64_char ((b mod 16) * 4),
      CHR ''='']"
| "base64_bytes (a # b # c # rest) =
     [b64_char (a div 4), b64_char ((a mod 4) * 16 + b div 16),
      b64_char ((b mod 16) * 4 + c div 64), b64_char (c mod 64)] @ base64_bytes rest"

definition to_base64 :: "string \<Rightarrow> string" where
  "to_base64 s = base64_bytes (map of_char (utf8_bytes s))"

text \<open>
  The reader's side, which is not part of this repository: the decoding of RFC 4648,
  \<open>Buffer.from(v, 'base64').toString('utf8')\<close>, where bytes that are UTF-8 are the
  string they write. \<open>None\<close> is text that is not base64.
\<close>

fun b64_index_from :: "nat \<Rightarrow> string \<Rightarrow> char \<Rightarrow> nat option" where
  "b64_index_from i [] c = None"
| "b64_index_from i (x # xs) c = (if x = c then Some i else b64_index_from (Suc i) xs c)"

definition b64_index :: "char \<Rightarrow> nat option" where
  "b64_index c = b64_index_from 0 b64_alphabet c"

fun base64_decode_bytes :: "string \<Rightarrow> nat list option" where
  "base64_decode_bytes [] = Some []"
| "base64_decode_bytes (c1 # c2 # c3 # c4 # rest) =
     (case (b64_index c1, b64_index c2) of
        (Some v1, Some v2) \<Rightarrow>
          (if c3 = CHR ''='' \<and> c4 = CHR ''='' \<and> rest = [] then
             Some [v1 * 4 + v2 div 16]
           else
             (case b64_index c3 of
                None \<Rightarrow> None
              | Some v3 \<Rightarrow>
                  (if c4 = CHR ''='' \<and> rest = [] then
                     Some [v1 * 4 + v2 div 16, (v2 mod 16) * 16 + v3 div 4]
                   else
                     (case (b64_index c4, base64_decode_bytes rest) of
                        (Some v4, Some more) \<Rightarrow>
                          Some ([v1 * 4 + v2 div 16, (v2 mod 16) * 16 + v3 div 4,
                                 (v3 mod 4) * 64 + v4] @ more)
                      | other \<Rightarrow> None))))
      | other \<Rightarrow> None)"
| "base64_decode_bytes short = None"

definition from_base64 :: "string \<Rightarrow> string option" where
  "from_base64 v = map_option (map char_of) (base64_decode_bytes v)"

section \<open>Errors, providers and the HTTP client\<close>

text \<open>What \<open>axios\<close> rejects with: \<open>error.response?.status\<close>, \<open>error.response?.data\<close>
  and \<open>error.message\<close>. A request that got no response has no status and no data.\<close>

datatype axios_error =
  AxiosError (ax_status: "nat option") (ax_data: jsval) (ax_message: string)

text \<open>The values the code throws. The two service errors carry \<open>message\<close>, \<open>code\<close>,
  \<open>status\<close> and \<open>details\<close> (Cloudflare) or \<open>response\<close> (Coolify).\<close>

datatype js_error =
    Axios axios_error
  | CloudflareAPIError jsval string "nat option" jsval
  | CoolifyAPIError string string "nat option" jsval
  | TypeError string

datatype dns_record =
  DnsRecord (rec_id: string) (rec_type: string) (rec_name: string) (rec_content: string)

datatype application =
  Application (uuid: string) (app_name: string)

datatype env_var =
  EnvVar (key: string) (val: string) (is_literal: bool)

text \<open>The requests the two services send.\<close>

datatype request =
    GetDnsRecords string string
  | PostDnsRecord string string string bool
  | DeleteDnsRecord string
  | GetApplications
  | PostApplicationsPublic jsval
  | PatchEnvsBulk string "env_var list"
  | GetDeploy string
  | DeleteApplication string

text \<open>
  The world outside the process: the records of the DNS zone, the applications of the
  hosting platform, the outcome of each request still to come (\<open>None\<close>: the provider
  serves it; \<open>Some e\<close>: axios rejects with \<open>e\<close>; past the end of the list every request is
  served), the identifiers the providers give to what they create, the requests sent so
  far, and the console lines of the route handlers.
\<close>

record world =
  dns_zone :: "dns_record list"
  coolify_apps :: "application list"
  outcomes :: "axios_error option list"
  new_ids :: "string list"
  sent :: "request list"
  console :: "string list"

definition axios :: "request \<Rightarrow> world \<Rightarrow> axios_error option \<times> world" where
  "axios r w =
     (case outcomes w of
        [] \<Rightarrow> (None, w\<lparr>sent := sent w @ [r]\<rparr>)
      | out # rest \<Rightarrow> (out, w\<lparr>sent := sent w @ [r], outcomes := rest\<rparr>))"

text \<open>The outcome the world holds for the next request.\<close>

definition next_outcome :: "world \<Rightarrow> axios_error option" where
  "next_outcome w = (case outcomes w of [] \<Rightarrow> None | out # rest \<Rightarrow> out)"

text \<open>The outcome it holds for the request that comes after \<open>n\<close> others.\<close>

definition nth_outcome :: "nat \<Rightarrow> world \<Rightarrow> axios_error option" where
  "nth_outcome n w = (if n < length (outcomes w) then outcomes w ! n else None)"

definition take_id :: "world \<Rightarrow> string \<times> world" where
  "take_id w =
     (case new_ids w of
        [] \<Rightarrow> ([], w)
      | i # rest \<Rightarrow> (i, w\<lparr>new_ids := rest\<rparr>))"

definition console_log :: "string \<Rightarrow> world \<Rightarrow> world" where
  "console_log line w = w\<lparr>console := console w @ [line]\<rparr>"

section \<open>services/cloudflare.ts\<close>

record cloudflare_api =
  domain :: string
  serverIp :: string

text \<open>\<open>handleError\<close> never returns; the model returns the error it throws.\<close>

definition cloudflare_handleError :: "js_error \<Rightarrow> js_error" where
  "cloudflare_handleError error =
     (case error of
        Axios e \<Rightarrow>
          (let status = ax_status e; data = ax_data e in
           if status = Some 401 then
             CloudflareAPIError (JStr ''Invalid API credentials'') ''UNAUTHORIZED'' status JUndefined
           else if status = Some 403 then
             CloudflareAPIError (JStr ''Access forbidden. Check API permissions'') ''FORBIDDEN''
               status JUndefined
           else if status = Some 404 then
             CloudflareAPIError (JStr ''Resource not found'') ''NOT_FOUND'' status data
           else if status = Some 429 then
             CloudflareAPIError (JStr ''Rate limit exceeded'') ''RATE_LIMIT'' status JUndefined
           else
             CloudflareAPIError
               (js_or (opt_get (opt_first (opt_get data ''errors'')) ''message'')
                  (JStr ''An error occurred with the Cloudflare API''))
               ''API_ERROR'' status data)
      | other \<Rightarrow>
          CloudflareAPIError (JStr ''An unexpected error occurred'') ''UNKNOWN_ERROR'' (Some 500)
            JUndefined)"

text \<open>The provider's answer to the filtered listing: the records of that name and type.\<close>

definition list_dns_records ::
  "string \<Rightarrow> string \<Rightarrow> world \<Rightarrow> (js_error + dns_record list) \<times> world" where
  "list_dns_records name type w =
     (case axios (GetDnsRecords name type) w of
        (Some e, w') \<Rightarrow> (Inl (Axios e), w')
      | (None, w') \<Rightarrow>
          (Inr (filter (\<lambda>r. rec_name r = name \<and> rec_type r = type) (dns_zone w')), w'))"

definition checkSubdomainAvailability ::
  "cloudflare_api \<Rightarrow> string \<Rightarrow> world \<Rightarrow> (js_error + bool) \<times> world" where
  "checkSubdomainAvailability api subdomain w =
     (if subdomain = [] then
        (Inl (CloudflareAPIError (JStr ''Subdomain is required'') ''INVALID_PARAMETER'' None
           JUndefined), w)
      else
        (case list_dns_records (subdomain @ ''.'' @ domain api) ''A'' w of
           (Inl e, w') \<Rightarrow> (Inl (cloudflare_handleError e), w')
         | (Inr result, w') \<Rightarrow> (Inr (length result = 0), w')))"

text \<open>The provider stores a new record under the zone's name, with a new identifier.\<close>

definition createSubdomainRecord ::
  "cloudflare_api \<Rightarrow> string \<Rightarrow> world \<Rightarrow> (js_error + unit) \<times> world" where
  "createSubdomainRecord api subdomain w =
     (if subdomain = [] then
        (Inl (CloudflareAPIError (JStr ''Subdomain is required'') ''INVALID_PARAMETER'' None
           JUndefined), w)
      else
        (case axios (PostDnsRecord ''A'' subdomain (serverIp api) True) w of
           (Some e, w') \<Rightarrow> (Inl (cloudflare_handleError (Axios e)), w')
         | (None, w') \<Rightarrow>
             (let (i, w'') = take_id w' in
              (Inr (),
               w''\<lparr>dns_zone := dns_zone w'' @
                 [DnsRecord i ''A'' (subdomain @ ''.'' @ domain api) (serverIp api)]\<rparr>))))"

definition deleteSubdomainRecord ::
  "cloudflare_api \<Rightarrow> string \<Rightarrow> world \<Rightarrow> (js_error + unit) \<times> world" where
  "deleteSubdomainRecord api subdomain w =
     (if subdomain = [] then
        (Inl (CloudflareAPIError (JStr ''Subdomain is required'') ''INVALID_PARAMETER'' None
           JUndefined), w)
      else
        (case list_dns_records (subdomain @ ''.'' @ domain api) ''A'' w of
           (Inl e, w') \<Rightarrow> (Inl (cloudflare_handleError e), w')
         | (Inr result, w') \<Rightarrow>
             (case result of
                [] \<Rightarrow> (Inr (), w')
              | r # rest \<Rightarrow>
                  (case axios (DeleteDnsRecord (rec_id r)) w' of
                     (Some e, w'') \<Rightarrow> (Inl (cloudflare_handleError (Axios e)), w'')
                   | (None, w'') \<Rightarrow>
                       (Inr (),
                        w''\<lparr>dns_zone := filter (\<lambda>x. rec_id x \<noteq> rec_id r) (dns_zone w'')\<rparr>)))))"

section \<open>services/coolify.ts\<close>

definition error_message :: "js_error \<Rightarrow> jsval" where
  "error_message error =
     (case error of
        Axios e \<Rightarrow> JStr (ax_message e)
      | CloudflareAPIError m c st d \<Rightarrow> m
      | CoolifyAPIError m c st r \<Rightarrow> JStr m
      | TypeError m \<Rightarrow> JStr m)"

text \<open>
  \<open>handleError\<close> never returns; the model returns the error it throws. Of its console
  output only \<open>console.log(data.errors)\<close> matters: that read throws a TypeError when the
  response has no body.
\<close>

definition coolify_handleError :: "js_error \<Rightarrow> string \<Rightarrow> js_error" where
  "coolify_handleError error context =
     (case error of
        Axios e \<Rightarrow>
          (let status = ax_status e; data = ax_data e in
           if data = JUndefined \<or> data = JNull then
             TypeError (''Cannot read properties of '' @ js_toString data @
                        '' (reading '' @ [CHR 0x27] @ ''errors'' @ [CHR 0x27] @ '')'')
           else
             CoolifyAPIError
               (context @ '': '' @
                js_toString
                  (js_or (opt_get data ''message'')
                     (js_or (JStr (ax_message e))
                        (JStr ''An error occurred with the Coolify API''))))
               ''API_ERROR'' status data)
      | other \<Rightarrow>
          CoolifyAPIError
            (context @ '': '' @
             js_toString (js_or (error_message other) (JStr ''An unexpected error occurred'')))
            ''UNKNOWN_ERROR'' (Some 500) JUndefined)"

definition getApplications :: "world \<Rightarrow> (js_error + application list) \<times> world" where
  "getApplications w =
     (case axios GetApplications w of
        (Some e, w') \<Rightarrow> (Inl (coolify_handleError (Axios e) ''Failed to get applications''), w')
      | (None, w') \<Rightarrow> (Inr (coolify_apps w'), w'))"

definition findApplicationByName :: "string \<Rightarrow> world \<Rightarrow> application option \<times> world" where
  "findApplicationByName name w =
     (case getApplications w of
        (Inl e, w') \<Rightarrow> (None, w')
      | (Inr applications, w') \<Rightarrow> (find (\<lambda>app. app_name app = name) applications, w'))"

text \<open>Property write \<open>{...o, k: v}\<close> and the rest of \<open>const {k, ...rest} = o\<close>.\<close>

fun obj_set :: "(string \<times> jsval) list \<Rightarrow> string \<Rightarrow> jsval \<Rightarrow> (string \<times> jsval) list" where
  "obj_set [] k v = [(k, v)]"
| "obj_set (p # ps) k v = (if fst p = k then (k, v) # ps else p # obj_set ps k v)"

definition obj_without :: "(string \<times> jsval) list \<Rightarrow> string \<Rightarrow> (string \<times> jsval) list" where
  "obj_without obj k = filter (\<lambda>p. fst p \<noteq> k) obj"

text \<open>
  The block that \<open>createDeployment\<close> (lines 202 to 241) and \<open>updateDeployment\<close> (lines 332
  to 371) both contain, word for word. Calling \<open>trim\<close> on a truthy value that is not a
  string throws.
\<close>

definition envVariables :: "(string \<times> jsval) list \<Rightarrow> js_error + env_var list" where
  "envVariables clientData =
     (let clientDataWithLogo =
            obj_set clientData ''logo'' (js_or (opt_get (JObj clientData) ''logo'') JNull);
          clientDataForEnv = obj_without clientDataWithLogo ''htmlCode'';
          envVariables =
            [EnvVar ''CLIENT_DATA'' (JSON_stringify clientDataForEnv) True,
             EnvVar ''NODE_ENV'' ''production'' True,
             EnvVar ''NEXT_PUBLIC_CLIENT_DATA'' (JSON_stringify clientDataForEnv) True];
          htmlCode = opt_get (JObj clientData) ''htmlCode''
      in if \<not> truthy htmlCode then Inr envVariables
         else
           (case htmlCode of
              JStr html \<Rightarrow>
                (if js_trim html \<noteq> [] then
                   Inr (envVariables @
                        [EnvVar ''NEXT_PUBLIC_CUSTOM_HTML_BASE64'' (to_base64 html) True])
                 else Inr envVariables)
            | other \<Rightarrow> Inl (TypeError ''clientData.htmlCode.trim is not a function'')))"

definition createPayload :: "process_env \<Rightarrow> string \<Rightarrow> (string \<times> jsval) list \<Rightarrow> jsval" where
  "createPayload penv subdomain clientData =
     JObj
       [(''project_uuid'', env_val penv ''COOLIFY_PROJECT_ID''),
        (''server_uuid'', env_val penv ''COOLIFY_SERVER_ID''),
        (''environment_uuid'', env_val penv ''COOLIFY_ENVIRONMENT_ID''),
        (''environment_name'', JStr ''production''),
        (''git_repository'', env_val penv ''TEMPLATE_REPO''),
        (''git_branch'', JStr ''master''),
        (''build_pack'', JStr ''dockercompose''),
        (''name'', JStr subdomain),
        (''description'', js_or (opt_get (JObj clientData) ''description'') (JStr [])),
        (''domains'',
           JStr (''https://'' @ subdomain @ ''.'' @ js_toString (env_val penv ''DOMAIN''))),
        (''docker_compose_domains'',
           JArr [JObj [(''name'', JStr ''web''),
                       (''domain'',
                          JStr (''https://'' @ subdomain @ ''.'' @
                                js_toString (env_val penv ''DOMAIN'')))]]),
        (''base_directory'', JStr ''/''),
        (''ports_exposes'', JNum ''3000''),
        (''docker_compose_location'', JStr ''docker-compose.yml''),
        (''health_check_enabled'', JBool True),
        (''health_check_path'', JStr ''/api/health''),
        (''health_check_port'', JStr ''3000''),
        (''health_check_scheme'', JStr ''http''),
        (''health_check_interval'', JNum ''10''),
        (''health_check_timeout'', JNum ''3''),
        (''health_check_retries'', JNum ''3''),
        (''health_check_start_period'', JNum ''30''),
        (''instant_deploy'', JBool False)]"

text \<open>
  The platform creates the application under the posted name and answers with its new
  \<open>uuid\<close>; \<open>applicationId\<close> is that \<open>uuid\<close>, refused when it is empty.
\<close>

definition create_application ::
  "process_env \<Rightarrow> string \<Rightarrow> (string \<times> jsval) list \<Rightarrow> world \<Rightarrow> (js_error + string) \<times> world" where
  "create_application penv subdomain clientData w =
     (case axios (PostApplicationsPublic (createPayload penv subdomain clientData)) w of
        (Some e, w') \<Rightarrow> (Inl (Axios e), w')
      | (None, w') \<Rightarrow>
          (let (i, w'') = take_id w';
               w''' = w''\<lparr>coolify_apps := coolify_apps w'' @ [Application i subdomain]\<rparr>
           in if i = [] then
                (Inl (CoolifyAPIError ''Application created but no ID returned''
                        ''INVALID_RESPONSE'' None JUndefined), w''')
              else (Inr i, w''')))"

text \<open>Set the environment variables, then trigger the deploy.\<close>

definition set_env_and_deploy ::
  "string \<Rightarrow> (string \<times> jsval) list \<Rightarrow> world \<Rightarrow> (js_error + unit) \<times> world" where
  "set_env_and_deploy applicationId clientData w =
     (case envVariables clientData of
        Inl e \<Rightarrow> (Inl e, w)
      | Inr vars \<Rightarrow>
          (case axios (PatchEnvsBulk applicationId vars) w of
             (Some e, w') \<Rightarrow> (Inl (Axios e), w')
           | (None, w') \<Rightarrow>
               (case axios (GetDeploy applicationId) w' of
                  (Some e, w'') \<Rightarrow> (Inl (Axios e), w'')
                | (None, w'') \<Rightarrow> (Inr (), w''))))"

text \<open>The \<open>try\<close> block of \<open>createDeployment\<close>, and the method with its \<open>catch\<close>.\<close>

definition createDeployment_try ::
  "process_env \<Rightarrow> string \<Rightarrow> (string \<times> jsval) list \<Rightarrow> world \<Rightarrow> (js_error + unit) \<times> world" where
  "createDeployment_try penv subdomain clientData w =
     (if \<not> env_set penv ''TEMPLATE_REPO'' then
        (Inl (CoolifyAPIError ''GitHub repository URL is required'' ''INVALID_PARAMETER'' None
                JUndefined), w)
      else if \<not> env_set penv ''COOLIFY_PROJECT_ID'' \<or> \<not> env_set penv ''COOLIFY_ENVIRONMENT_ID''
              \<or> \<not> env_set penv ''COOLIFY_SERVER_ID'' then
        (Inl (CoolifyAPIError
                ''Coolify project ID, environment ID, and server ID are required but not provided''
                ''INVALID_PARAMETER'' None JUndefined), w)
      else
        (case findApplicationByName subdomain w of
           (Some existingApp, w') \<Rightarrow> set_env_and_deploy (uuid existingApp) clientData w'
         | (None, w') \<Rightarrow>
             (case create_application penv subdomain clientData w' of
                (Inl e, w'') \<Rightarrow> (Inl e, w'')
              | (Inr applicationId, w'') \<Rightarrow> set_env_and_deploy applicationId clientData w'')))"

definition createDeployment ::
  "process_env \<Rightarrow> string \<Rightarrow> (string \<times> jsval) list \<Rightarrow> world \<Rightarrow> (js_error + unit) \<times> world" where
  "createDeployment penv subdomain clientData w =
     (case createDeployment_try penv subdomain clientData w of
        (Inl e, w') \<Rightarrow> (Inl (coolify_handleError e ''Failed to create deployment''), w')
      | (Inr u, w') \<Rightarrow> (Inr u, w'))"

definition deleteDeployment :: "string \<Rightarrow> world \<Rightarrow> (js_error + unit) \<times> world" where
  "deleteDeployment subdomain w =
     (case findApplicationByName subdomain w of
        (None, w') \<Rightarrow>
          (Inl (coolify_handleError
                  (CoolifyAPIError ''Application not found'' ''NOT_FOUND'' (Some 404) JUndefined)
                  ''Failed to delete deployment''), w')
      | (Some app, w') \<Rightarrow>
          (case axios (DeleteApplication (uuid app)) w' of
             (Some e, w'') \<Rightarrow>
               (Inl (coolify_handleError (Axios e) ''Failed to delete deployment''), w'')
           | (None, w'') \<Rightarrow>
               (Inr (),
                w''\<lparr>coolify_apps := filter (\<lambda>a. uuid a \<noteq> uuid app) (coolify_apps w'')\<rparr>)))"

definition updateDeployment ::
  "process_env \<Rightarrow> string \<Rightarrow> (string \<times> jsval) list \<Rightarrow> world \<Rightarrow> (js_error + unit) \<times> world" where
  "updateDeployment penv subdomain clientData w =
     (case findApplicationByName subdomain w of
        (None, w') \<Rightarrow>
          (case createDeployment penv subdomain clientData w' of
             (Inl e, w'') \<Rightarrow> (Inl (coolify_handleError e ''Failed to update deployment''), w'')
           | (Inr u, w'') \<Rightarrow> (Inr u, w''))
      | (Some app, w') \<Rightarrow>
          (case set_env_and_deploy (uuid app) clientData w' of
             (Inl e, w'') \<Rightarrow> (Inl (coolify_handleError e ''Failed to update deployment''), w'')
           | (Inr u, w'') \<Rightarrow> (Inr u, w'')))"

section \<open>routes/clients.js\<close>

text \<open>
  The tenant document, with the fields the handlers read or write. The store is outside
  the saga: \<open>Client.findOne\<close> is the handler's argument (\<open>None\<close>: no such client) and
  \<open>client.save()\<close> stores the document, which the handler returns.
\<close>

record client =
  name :: string
  subdomain :: string
  description :: jsval
  links :: jsval
  customization :: jsval
  logo :: jsval
  deploymentType :: jsval
  htmlCode :: jsval
  isDeployed :: bool

datatype response =
  Response (res_status: nat) (res_json: jsval)

definition toObject :: "client \<Rightarrow> (string \<times> jsval) list" where
  "toObject c =
     [(''name'', JStr (name c)), (''subdomain'', JStr (subdomain c)),
      (''description'', description c), (''links'', links c),
      (''customization'', customization c), (''logo'', logo c),
      (''isDeployed'', JBool (isDeployed c)), (''deploymentType'', deploymentType c),
      (''htmlCode'', htmlCode c)]"

text \<open>
  \<open>getCloudflareAPI\<close> and \<open>getCoolifyAPI\<close> build each service once, from \<open>process.env\<close>,
  and answer null when a credential is missing; \<open>checkCloudflareAPI\<close> and
  \<open>checkCoolifyAPI\<close> answer 503 then.
\<close>

definition getCloudflareAPI :: "process_env \<Rightarrow> cloudflare_api option" where
  "getCloudflareAPI penv =
     (if \<not> env_set penv ''CLOUDFLARE_API_TOKEN'' \<or> \<not> env_set penv ''CLOUDFLARE_ZONE_ID'' then None
      else Some \<lparr>domain = env_or penv ''DOMAIN'' ''theosirislabs.com'',
                 serverIp = env_or penv ''SERVER_IP'' ''127.0.0.1''\<rparr>)"

definition getCoolifyAPI :: "process_env \<Rightarrow> bool" where
  "getCoolifyAPI penv = (env_set penv ''COOLIFY_API_KEY'' \<and> env_set penv ''COOLIFY_API_URL'')"

definition unavailable_cloudflare :: response where
  "unavailable_cloudflare =
     Response 503
       (JObj [(''message'',
               JStr ''Domain management service is currently unavailable. Please try again later.'')])"

definition unavailable_coolify :: response where
  "unavailable_coolify =
     Response 503
       (JObj [(''message'',
               JStr ''Deployment service is currently unavailable. Please try again later.'')])"

text \<open>\<open>error.status || 500\<close>.\<close>

definition status_or_500 :: "nat option \<Rightarrow> nat" where
  "status_or_500 st = (case st of None \<Rightarrow> 500 | Some n \<Rightarrow> if n = 0 then 500 else n)"

subsection \<open>POST /:id/deploy\<close>

text \<open>The \<open>try\<close> block of the DNS phase (lines 412 to 423 of the handler's file).\<close>

definition deploy_dns_phase ::
  "cloudflare_api \<Rightarrow> client \<Rightarrow> world \<Rightarrow> (js_error + unit) \<times> world" where
  "deploy_dns_phase api c w =
     (case checkSubdomainAvailability api (subdomain c)
             (console_log ''Checking Cloudflare DNS record for:'' w) of
        (Inl e, w') \<Rightarrow> (Inl e, w')
      | (Inr dnsExists, w') \<Rightarrow>
          (if dnsExists then
             (case createSubdomainRecord api (subdomain c)
                     (console_log ''Creating Cloudflare DNS record for:'' w') of
                (Inl e, w'') \<Rightarrow> (Inl e, w'')
              | (Inr u, w'') \<Rightarrow>
                  (Inr (), console_log ''Successfully created Cloudflare DNS record'' w''))
           else (Inr (), console_log ''DNS record already exists for:'' w')))"

definition clientData_of :: "client \<Rightarrow> (string \<times> jsval) list" where
  "clientData_of c =
     [(''name'', JStr (name c)), (''description'', description c), (''links'', links c),
      (''customization'', customization c), (''logo'', logo c),
      (''deploymentType'', deploymentType c), (''htmlCode'', htmlCode c)]"

text \<open>The clean-up of the \<open>catch\<close> block (lines 466 to 473): its own failure is logged.\<close>

definition deploy_cleanup :: "cloudflare_api \<Rightarrow> client \<Rightarrow> world \<Rightarrow> world" where
  "deploy_cleanup api c w =
     (case deleteSubdomainRecord api (subdomain c) w of
        (Inr u, w') \<Rightarrow> console_log ''Cleaned up DNS record after failed deployment'' w'
      | (Inl cleanupError, w') \<Rightarrow> console_log ''Failed to clean up DNS record:'' w')"

definition deployment_failed :: "js_error \<Rightarrow> response" where
  "deployment_failed error =
     (case error of
        CoolifyAPIError m c st r \<Rightarrow>
          Response (status_or_500 st)
            (JObj [(''error'', JStr ''Deployment failed''), (''details'', JStr m),
                   (''code'', JStr c), (''apiResponse'', r)])
      | other \<Rightarrow>
          Response 500
            (JObj [(''error'', JStr ''Deployment failed''), (''details'', error_message other)]))"

definition deploy_route ::
  "process_env \<Rightarrow> client option \<Rightarrow> world \<Rightarrow> response \<times> client option \<times> world" where
  "deploy_route penv found w =
     (case found of
        None \<Rightarrow> (Response 404 (JObj [(''error'', JStr ''Client not found'')]), None, w)
      | Some c \<Rightarrow>
          if isDeployed c then
            (Response 400 (JObj [(''error'', JStr ''Client is already deployed'')]), Some c, w)
          else
            (case getCloudflareAPI penv of
               None \<Rightarrow> (unavailable_cloudflare, Some c, w)
             | Some cloudflare \<Rightarrow>
                 if \<not> getCoolifyAPI penv then (unavailable_coolify, Some c, w)
                 else
                   (case deploy_dns_phase cloudflare c
                           (console_log ''Starting deployment process for client:'' w) of
                      (Inl error, w1) \<Rightarrow>
                        (Response 500
                           (JObj [(''error'', JStr ''Failed to manage DNS record''),
                                  (''details'', error_message error)]),
                         Some c, console_log ''Error managing DNS record:'' w1)
                    | (Inr u, w1) \<Rightarrow>
                        (case createDeployment penv (subdomain c) (clientData_of c)
                                (console_log ''Creating Coolify deployment for:'' w1) of
                           (Inr u', w2) \<Rightarrow>
                             (Response 200
                                (JObj [(''message'', JStr ''Deployment successful''),
                                       (''client'',
                                          JObj (obj_set (toObject (c\<lparr>isDeployed := True\<rparr>))
                                                  ''isDeployed'' (JBool True)))]),
                              Some (c\<lparr>isDeployed := True\<rparr>),
                              console_log ''Deployment successful for client:'' w2)
                         | (Inl error, w2) \<Rightarrow>
                             (deployment_failed error, Some c,
                              deploy_cleanup cloudflare c
                                (console_log ''Deployment failed for client:'' w2))))))"

subsection \<open>DELETE /:id/deploy\<close>

definition undeploy_route ::
  "process_env \<Rightarrow> client option \<Rightarrow> world \<Rightarrow> response \<times> client option \<times> world" where
  "undeploy_route penv found w =
     (case getCloudflareAPI penv of
        None \<Rightarrow> (unavailable_cloudflare, found, w)
      | Some cloudflare \<Rightarrow>
          if \<not> getCoolifyAPI penv then (unavailable_coolify, found, w)
          else
            (case found of
               None \<Rightarrow> (Response 404 (JObj [(''message'', JStr ''Client not found'')]), None, w)
             | Some c \<Rightarrow>
                 (let w0 = console_log ''Deleting Cloudflare DNS record for:''
                             (console_log ''Starting undeployment for client:'' w);
                      (errors1, w1) =
                        (case deleteSubdomainRecord cloudflare (subdomain c) w0 of
                           (Inr u, w') \<Rightarrow>
                             ([], console_log ''Successfully deleted Cloudflare DNS record'' w')
                         | (Inl error, w') \<Rightarrow>
                             ([''Failed to delete DNS record''],
                              console_log ''Error deleting DNS record:'' w'));
                      (errors, w2) =
                        (case deleteDeployment (subdomain c)
                                (console_log ''Deleting Coolify deployment for:'' w1) of
                           (Inr u, w') \<Rightarrow>
                             (errors1, console_log ''Successfully deleted Coolify deployment'' w')
                         | (Inl error, w') \<Rightarrow>
                             (errors1 @ [''Failed to delete Coolify deployment''],
                              console_log ''Error undeploying from Coolify:'' w'));
                      (c', w3) =
                        (if length errors < 2 then
                           (c\<lparr>isDeployed := False\<rparr>,
                            console_log ''Updated client deployment status to false'' w2)
                         else (c, w2))
                  in if length errors = 0 then
                       (Response 200 (JObj [(''message'', JStr ''Client undeployed successfully'')]),
                        Some c', w3)
                     else if length errors = 2 then
                       (Response 500
                          (JObj [(''message'', JStr ''Failed to undeploy client''),
                                 (''errors'', JArr (map JStr errors))]),
                        Some c', w3)
                     else
                       (Response 207
                          (JObj [(''message'', JStr ''Client partially undeployed''),
                                 (''errors'', JArr (map JStr errors))]),
                        Some c', w3))))"

subsection \<open>POST /\<close>

text \<open>
  The request as the middlewares hand it to the handler. \<open>express-validator\<close> has
  sanitised the fields of \<open>req.body\<close> and recorded what it found, which
  \<open>validationResult\<close> reads; where it found nothing, \<open>name\<close> and \<open>subdomain\<close> are
  strings. \<open>links\<close> and \<open>customization\<close> arrive as values (a JSON body) or as JSON text
  (a form). \<open>JSON.parse\<close> is the library's: a text comes with what \<open>JSON.parse\<close> makes
  of it, \<open>None\<close> where it throws a SyntaxError, as it does on the empty text. \<open>links\<close>
  is taken to be absent, an array or the text of an array; \<open>Customization v\<close> is a
  value \<open>v\<close> that is not a string.
\<close>

datatype links_field =
    LinksUndefined
  | LinksArray "jsval list"
  | LinksText string "jsval list option"

datatype customization_field =
    Customization jsval
  | CustomizationText string "jsval option"

record create_body =
  body_name :: string
  body_subdomain :: string
  body_description :: jsval
  body_links :: links_field
  body_customization :: customization_field
  body_deploymentType :: jsval
  body_htmlCode :: jsval

text \<open>
  \<open>typeof reqLinks === 'string' ? JSON.parse(reqLinks || '[]') : reqLinks || []\<close> of
  the validation, and \<open>typeof links === 'string' ? JSON.parse(links) : links\<close> of the
  constructor call and of \<open>clientData\<close>; \<open>None\<close> is the SyntaxError.
\<close>

definition parsedLinks :: "links_field \<Rightarrow> jsval list option" where
  "parsedLinks reqLinks =
     (case reqLinks of
        LinksUndefined \<Rightarrow> Some []
      | LinksArray xs \<Rightarrow> Some xs
      | LinksText s p \<Rightarrow> if s = [] then Some [] else p)"

definition parse_links :: "links_field \<Rightarrow> jsval option" where
  "parse_links links' =
     (case links' of
        LinksUndefined \<Rightarrow> Some JUndefined
      | LinksArray xs \<Rightarrow> Some (JArr xs)
      | LinksText s p \<Rightarrow> if s = [] then None else map_option JArr p)"

definition parse_customization :: "customization_field \<Rightarrow> jsval option" where
  "parse_customization customization' =
     (case customization' of
        Customization v \<Rightarrow> Some v
      | CustomizationText s p \<Rightarrow> if s = [] then None else p)"

text \<open>
  The validation of the handler's own (lines 209 to 249). What it throws, the
  SyntaxError of \<open>JSON.parse\<close> or the TypeError of a read on undefined or of a \<open>trim\<close>
  that is no function, goes to the handler's \<open>catch\<close>, which logs it and reads nothing
  of it.
\<close>

datatype validation = Throws | Answers response | Passes

definition bad_request :: "string \<Rightarrow> response" where
  "bad_request m = Response 400 (JObj [(''message'', JStr m)])"

text \<open>\<open>!v || !v.trim()\<close>; \<open>None\<close> when \<open>v\<close> is truthy and not a string.\<close>

definition blank :: "jsval \<Rightarrow> bool option" where
  "blank v =
     (if \<not> truthy v then Some True
      else (case v of JStr s \<Rightarrow> Some (js_trim s = []) | other \<Rightarrow> None))"

text \<open>The loop over \<open>parsedLinks\<close>, from index \<open>i\<close> on.\<close>

fun check_links :: "nat \<Rightarrow> jsval list \<Rightarrow> validation" where
  "check_links i [] = Passes"
| "check_links i (link # rest) =
     (if link = JUndefined \<or> link = JNull then Throws
      else
        (case blank (opt_get link ''title'') of
           None \<Rightarrow> Throws
         | Some True \<Rightarrow>
             Answers (bad_request (''Link '' @ show_nat (i + 1) @ '' title is required''))
         | Some False \<Rightarrow>
             (case blank (opt_get link ''url'') of
                None \<Rightarrow> Throws
              | Some True \<Rightarrow>
                  Answers (bad_request (''Link '' @ show_nat (i + 1) @ '' URL is required''))
              | Some False \<Rightarrow> check_links (i + 1) rest)))"

definition create_validation :: "create_body \<Rightarrow> validation" where
  "create_validation b =
     (case parsedLinks (body_links b) of
        None \<Rightarrow> Throws
      | Some links' \<Rightarrow>
          if body_deploymentType b = JStr ''template'' then
            (if links' = [] then
               Answers (bad_request ''At least one link is required for template deployment'')
             else check_links 0 links')
          else if body_deploymentType b = JStr ''custom-html'' then
            (case blank (body_htmlCode b) of
               None \<Rightarrow> Throws
             | Some True \<Rightarrow>
                 Answers (bad_request ''HTML code is required for custom HTML deployment'')
             | Some False \<Rightarrow> Passes)
          else Passes)"

text \<open>
  The logo (lines 253 to 275). The image service is outside the saga: \<open>req.file\<close> and
  what \<open>wordpress.uploadImage\<close> did with it are part of the request, \<open>None\<close> for no file,
  else the address of the stored image, a WordPressAPIError with its \<open>status\<close> and
  \<open>message\<close>, or another error. The result is the answer that ends the request, or
  \<open>logoUrl\<close>.
\<close>

datatype upload =
    Uploaded string
  | UploadRejected "nat option" string
  | UploadFailed

definition getWordPressAPI :: "process_env \<Rightarrow> bool" where
  "getWordPressAPI penv =
     (env_set penv ''WORDPRESS_API_URL'' \<and> env_set penv ''WORDPRESS_USERNAME''
      \<and> env_set penv ''WORDPRESS_PASSWORD'')"

definition unavailable_wordpress :: response where
  "unavailable_wordpress =
     Response 503
       (JObj [(''message'',
               JStr ''Image upload service is currently unavailable. Please try again later.'')])"

definition upload_logo ::
  "process_env \<Rightarrow> upload option \<Rightarrow> world \<Rightarrow> (response + jsval) \<times> world" where
  "upload_logo penv file w =
     (case file of
        None \<Rightarrow> (Inr JUndefined, w)
      | Some outcome \<Rightarrow>
          if \<not> getWordPressAPI penv then (Inl unavailable_wordpress, w)
          else
            (case outcome of
               Uploaded url \<Rightarrow> (Inr (JStr url), w)
             | UploadRejected st m \<Rightarrow>
                 (Inl (Response (status_or_500 st)
                         (JObj [(''message'', JStr ''Failed to upload logo''),
                                (''error'', JStr m)])),
                  console_log ''Error uploading logo:'' w)
             | UploadFailed \<Rightarrow>
                 (Inl (Response 500 (JObj [(''message'', JStr ''Failed to upload logo'')])),
                  console_log ''Error uploading logo:'' w)))"

text \<open>
  \<open>new Client({...})\<close> with the schema's defaults for what is undefined, and the
  \<open>clientData\<close> of the call of \<open>createDeployment\<close>. Of a link the document holds what
  the request gave.
\<close>

definition new_Client :: "create_body \<Rightarrow> jsval \<Rightarrow> jsval \<Rightarrow> jsval \<Rightarrow> client" where
  "new_Client b links' customization' logoUrl =
     \<lparr>name = body_name b, subdomain = body_subdomain b,
      description = (if body_description b = JUndefined then JStr [] else body_description b),
      links = (if links' = JUndefined then JArr [] else links'),
      customization = (if customization' = JUndefined then JObj [] else customization'),
      logo = logoUrl,
      deploymentType = js_or (body_deploymentType b) (JStr ''template''),
      htmlCode = body_htmlCode b, isDeployed = False\<rparr>"

definition create_clientData ::
  "create_body \<Rightarrow> jsval \<Rightarrow> jsval \<Rightarrow> jsval \<Rightarrow> (string \<times> jsval) list" where
  "create_clientData b links' customization' logoUrl =
     [(''name'', JStr (body_name b)), (''description'', body_description b),
      (''links'', links'), (''customization'', customization'),
      (''logo'', logoUrl),
      (''deploymentType'', js_or (body_deploymentType b) (JStr ''template'')),
      (''htmlCode'', body_htmlCode b)]"

definition server_error :: response where
  "server_error = Response 500 (JObj [(''message'', JStr ''Server error'')])"

text \<open>
  The handler from the availability check on (lines 276 to 344). The second component
  of the result is the stored document, \<open>None\<close> when nothing was stored.
\<close>

definition create_client ::
  "process_env \<Rightarrow> cloudflare_api \<Rightarrow> create_body \<Rightarrow> jsval \<Rightarrow> world
     \<Rightarrow> response \<times> client option \<times> world" where
  "create_client penv cloudflare b logoUrl w =
     (case checkSubdomainAvailability cloudflare (body_subdomain b) w of
        (Inl error, w1) \<Rightarrow>
          (Response 500 (JObj [(''message'', JStr ''Failed to check subdomain availability'')]),
           None, console_log ''Error checking subdomain availability:'' w1)
      | (Inr available, w1) \<Rightarrow>
          if \<not> available then (bad_request ''This subdomain is not available'', None, w1)
          else
            (case parse_links (body_links b) of
               None \<Rightarrow> (server_error, None, console_log ''Error creating client:'' w1)
             | Some links' \<Rightarrow>
                 (case parse_customization (body_customization b) of
                    None \<Rightarrow> (server_error, None, console_log ''Error creating client:'' w1)
                  | Some customization' \<Rightarrow>
                      (let c = new_Client b links' customization' logoUrl;
                           w2 = (case createSubdomainRecord cloudflare (body_subdomain b) w1 of
                                   (Inl error, w') \<Rightarrow>
                                     console_log ''Error creating DNS record:'' w'
                                 | (Inr u, w') \<Rightarrow> w');
                           (c', w3) =
                             (case createDeployment penv (body_subdomain b)
                                     (create_clientData b links' customization' logoUrl) w2 of
                                (Inr u, w') \<Rightarrow> (c\<lparr>isDeployed := True\<rparr>, w')
                              | (Inl error, w') \<Rightarrow>
                                  (c, console_log ''Error deploying template:'' w'))
                       in (Response 201 (JObj (toObject c')), Some c', w3)))))"

text \<open>The handler; \<open>errors\<close> is \<open>validationResult(req).array()\<close>.\<close>

definition create_route ::
  "process_env \<Rightarrow> jsval list \<Rightarrow> create_body \<Rightarrow> upload option \<Rightarrow> world
     \<Rightarrow> response \<times> client option \<times> world" where
  "create_route penv errors b file w =
     (if errors \<noteq> [] then (Response 400 (JObj [(''errors'', JArr errors)]), None, w)
      else
        (case create_validation b of
           Throws \<Rightarrow> (server_error, None, console_log ''Error creating client:'' w)
         | Answers resp \<Rightarrow> (resp, None, w)
         | Passes \<Rightarrow>
             (case getCloudflareAPI penv of
                None \<Rightarrow> (unavailable_cloudflare, None, w)
              | Some cloudflare \<Rightarrow>
                  if \<not> getCoolifyAPI penv then (unavailable_coolify, None, w)
                  else
                    (case upload_logo penv file w of
                       (Inl resp, w') \<Rightarrow> (resp, None, w')
                     | (Inr logoUrl, w') \<Rightarrow> create_client penv cloudflare b logoUrl w'))))"

section \<open>Vocabulary of the properties\<close>

text \<open>The requests sent between two worlds of one run.\<close>

definition new_requests :: "world \<Rightarrow> world \<Rightarrow> request list" where
  "new_requests w w' = drop (length (sent w)) (sent w')"

text \<open>\<open>sends_only Q w w'\<close>: from \<open>w\<close> to \<open>w'\<close> requests were only added, each one in \<open>Q\<close>.\<close>

definition sends_only :: "(request \<Rightarrow> bool) \<Rightarrow> world \<Rightarrow> world \<Rightarrow> bool" where
  "sends_only Q w w' = (\<exists>new. sent w' = sent w @ new \<and> list_all Q new)"

text \<open>A request of the Coolify service for \<open>clientData\<close>: not a DNS request, and when it
  sets the environment, it carries the variables built from \<open>clientData\<close>.\<close>

fun coolify_request :: "(string \<times> jsval) list \<Rightarrow> request \<Rightarrow> bool" where
  "coolify_request clientData (PatchEnvsBulk i vars) = (envVariables clientData = Inr vars)"
| "coolify_request clientData GetApplications = True"
| "coolify_request clientData (PostApplicationsPublic p) = True"
| "coolify_request clientData (GetDeploy i) = True"
| "coolify_request clientData (DeleteApplication i) = True"
| "coolify_request clientData (GetDnsRecords n t) = False"
| "coolify_request clientData (PostDnsRecord t n c p) = False"
| "coolify_request clientData (DeleteDnsRecord i) = False"

fun creates_dns_record :: "request \<Rightarrow> bool" where
  "creates_dns_record (PostDnsRecord t n c p) = True"
| "creates_dns_record other = False"

text \<open>The request that creates an application.\<close>

fun creates_application :: "request \<Rightarrow> bool" where
  "creates_application (PostApplicationsPublic p) = True"
| "creates_application other = False"

text \<open>The request that sets the environment variables of an application.\<close>

fun sets_environment :: "request \<Rightarrow> bool" where
  "sets_environment (PatchEnvsBulk i vars) = True"
| "sets_environment other = False"

text \<open>The \<open>code\<close> of a thrown error; a TypeError and an axios error have none.\<close>

fun error_code :: "js_error \<Rightarrow> string option" where
  "error_code (CloudflareAPIError m c st d) = Some c"
| "error_code (CoolifyAPIError m c st r) = Some c"
| "error_code other = None"

fun error_status :: "js_error \<Rightarrow> nat option" where
  "error_status (CloudflareAPIError m c st d) = st"
| "error_status (CoolifyAPIError m c st r) = st"
| "error_status (Axios e) = ax_status e"
| "error_status (TypeError m) = None"

text \<open>
  The mapping of section 6 of the specification, in its words: 401 is Unauthorized, 403
  Forbidden, 404 NotFound, 429 RateLimited and any other status a ProviderError; each
  kind is written as the \<open>code\<close> the services give it.
\<close>

definition spec_error_kind :: "nat \<Rightarrow> string" where
  "spec_error_kind st =
     (if st = 401 then ''UNAUTHORIZED''
      else if st = 403 then ''FORBIDDEN''
      else if st = 404 then ''NOT_FOUND''
      else if st = 429 then ''RATE_LIMIT''
      else ''API_ERROR'')"

text \<open>Inputs of the examples.\<close>

abbreviation sample_env :: process_env where
  "sample_env \<equiv>
     map_of [(''CLOUDFLARE_API_TOKEN'', ''token''), (''CLOUDFLARE_ZONE_ID'', ''zone''),
             (''DOMAIN'', ''example.com''), (''SERVER_IP'', ''10.0.0.1''),
             (''COOLIFY_API_KEY'', ''key''), (''COOLIFY_API_URL'', ''https://coolify.test''),
             (''TEMPLATE_REPO'', ''https://git.test/template''),
             (''COOLIFY_PROJECT_ID'', ''p''), (''COOLIFY_ENVIRONMENT_ID'', ''e''),
             (''COOLIFY_SERVER_ID'', ''s'')]"

abbreviation sample_api :: cloudflare_api where
  "sample_api \<equiv> \<lparr>domain = ''example.com'', serverIp = ''10.0.0.1''\<rparr>"

abbreviation acme :: client where
  "acme \<equiv>
     \<lparr>name = ''Acme'', subdomain = ''acme'', description = JStr ''site'',
      links = JArr [], customization = JObj [], logo = JUndefined,
      deploymentType = JStr ''custom-html'', htmlCode = JStr ''<b>hi</b>'',
      isDeployed = False\<rparr>"

abbreviation acme_record :: dns_record where
  "acme_record \<equiv> DnsRecord ''r1'' ''A'' ''acme.example.com'' ''10.0.0.1''"

abbreviation world_of ::
  "dns_record list \<Rightarrow> application list \<Rightarrow> axios_error option list \<Rightarrow> world" where
  "world_of zone apps outs \<equiv>
     \<lparr>dns_zone = zone, coolify_apps = apps, outcomes = outs, new_ids = [''id1'', ''id2''],
      sent = [], console = []\<rparr>"

abbreviation status_500 :: axios_error where
  "status_500 \<equiv>
     AxiosError (Some 500) (JObj [(''message'', JStr ''Server Error'')])
       ''Request failed with status code 500''"

abbreviation acme_body :: create_body where
  "acme_body \<equiv>
     \<lparr>body_name = ''Acme'', body_subdomain = ''acme'', body_description = JStr ''site'',
      body_links = LinksArray [], body_customization = Customization (JObj []),
      body_deploymentType = JStr ''custom-html'', body_htmlCode = JStr ''<b>hi</b>''\<rparr>"

text \<open>The string \<open>"\uD800"\<close>: one surrogate, with no partner.\<close>

abbreviation lone_html :: string where
  "lone_html \<equiv> [CHR 0xED, CHR 0xA0, CHR 0x80]"

abbreviation acme_payload :: "(string \<times> jsval) list" where
  "acme_payload \<equiv>
     [(''name'', JStr ''Acme''), (''description'', JStr ''site''), (''links'', JArr []),
      (''customization'', JObj []), (''logo'', JNull),
      (''deploymentType'', JStr ''custom-html'')]"

abbreviation acme_vars :: "env_var list" where
  "acme_vars \<equiv>
     [EnvVar ''CLIENT_DATA'' (JSON_stringify acme_payload) True,
      EnvVar ''NODE_ENV'' ''production'' True,
      EnvVar ''NEXT_PUBLIC_CLIENT_DATA'' (JSON_stringify acme_payload) True,
      EnvVar ''NEXT_PUBLIC_CUSTOM_HTML_BASE64'' ''PGI+aGk8L2I+'' True]"

abbreviation blank_vars :: "env_var list" where
  "blank_vars \<equiv>
     [EnvVar ''CLIENT_DATA'' (JSON_stringify acme_payload) True,
      EnvVar ''NODE_ENV'' ''production'' True,
      EnvVar ''NEXT_PUBLIC_CLIENT_DATA'' (JSON_stringify acme_payload) True]"

abbreviation template_vars :: "env_var list" where
  "template_vars \<equiv>
     [EnvVar ''CLIENT_DATA''
        (JSON_stringify
           [(''name'', JStr ''Acme''), (''description'', JStr ''site''), (''links'', JArr []),
            (''customization'', JObj []), (''logo'', JNull),
            (''deploymentType'', JStr ''template'')]) True,
      EnvVar ''NODE_ENV'' ''production'' True,
      EnvVar ''NEXT_PUBLIC_CLIENT_DATA''
        (JSON_stringify
           [(''name'', JStr ''Acme''), (''description'', JStr ''site''), (''links'', JArr []),
            (''customization'', JObj []), (''logo'', JNull),
            (''deploymentType'', JStr ''template'')]) True,
      EnvVar ''NEXT_PUBLIC_CUSTOM_HTML_BASE64'' ''PGI+aGk8L2I+'' True]"

section \<open>Requests, console and provider state along a run\<close>

lemma axios_eq:
  "axios r w = (next_outcome w, w\<lparr>sent := sent w @ [r], outcomes := tl (outcomes w)\<rparr>)"
  by (cases "outcomes w") (simp_all add: axios_def next_outcome_def)

lemma next_outcome_update [simp]:
  "next_outcome (w\<lparr>console := x\<rparr>) = next_outcome w"
  "next_outcome (w\<lparr>sent := y\<rparr>) = next_outcome w"
  "next_outcome (console_log l w) = next_outcome w"
  by (simp_all add: next_outcome_def console_log_def)

lemma sends_only_refl: "sends_only Q w w"
  by (simp add: sends_only_def)

lemma sends_only_trans: "sends_only Q w w' \<Longrightarrow> sends_only Q w' w'' \<Longrightarrow> sends_only Q w w''"
  by (auto simp: sends_only_def)

lemma sends_only_console_log [simp]:
  "sends_only Q (console_log l w) w' = sends_only Q w w'"
  "sends_only Q w (console_log l w') = sends_only Q w w'"
  by (simp_all add: sends_only_def console_log_def)

lemma sends_only_new_requests:
  "sends_only Q w w' \<Longrightarrow> sent w' = sent w @ new_requests w w' \<and> list_all Q (new_requests w w')"
  by (auto simp: sends_only_def new_requests_def)

lemma sends_only_findApplicationByName:
  "Q GetApplications \<Longrightarrow> sends_only Q w (snd (findApplicationByName n w))"
  by (simp add: sends_only_def findApplicationByName_def getApplications_def axios_eq
        split: option.splits)

lemma sends_only_set_env_and_deploy:
  "sends_only (coolify_request cd) w (snd (set_env_and_deploy i cd w))"
  by (simp add: sends_only_def set_env_and_deploy_def axios_eq split: sum.splits option.splits)

lemma sends_only_create_application:
  "sends_only (coolify_request cd') w (snd (create_application penv sub cd w))"
  by (simp add: sends_only_def create_application_def axios_eq take_id_def Let_def
           split: option.splits list.splits)

lemma sends_only_createDeployment_try:
  "sends_only (coolify_request cd) w (snd (createDeployment_try penv sub cd w))"
proof -
  have a: "sends_only (coolify_request cd) w (snd (findApplicationByName sub w))"
    by (rule sends_only_findApplicationByName) simp
  show ?thesis
    unfolding createDeployment_try_def
    using a sends_only_set_env_and_deploy sends_only_create_application
    by (auto simp: sends_only_refl split: prod.splits option.splits sum.splits
          dest!: arg_cong [where f = snd]; meson sends_only_trans)
qed

lemma sends_only_createDeployment:
  "sends_only (coolify_request cd) w (snd (createDeployment penv sub cd w))"
  using sends_only_createDeployment_try [of cd w penv sub]
  by (auto simp: createDeployment_def split: prod.splits sum.splits)

lemma sends_only_updateDeployment:
  "sends_only (coolify_request cd) w (snd (updateDeployment penv sub cd w))"
proof -
  have a: "sends_only (coolify_request cd) w (snd (findApplicationByName sub w))"
    by (rule sends_only_findApplicationByName) simp
  show ?thesis
    unfolding updateDeployment_def
    using a sends_only_set_env_and_deploy sends_only_createDeployment
    by (auto simp: sends_only_refl split: prod.splits option.splits sum.splits
          dest!: arg_cong [where f = snd]; meson sends_only_trans)
qed

lemma sends_only_deleteSubdomainRecord:
  "sends_only (\<lambda>q. \<not> creates_dns_record q) w (snd (deleteSubdomainRecord api sub w))"
  by (simp add: sends_only_def deleteSubdomainRecord_def list_dns_records_def axios_eq
        split: option.splits list.splits)

lemma coolify_request_no_dns: "coolify_request cd q \<Longrightarrow> \<not> creates_dns_record q"
  by (cases q) simp_all

text \<open>What the services leave alone.\<close>

lemma cloudflare_keeps:
  "console (snd (checkSubdomainAvailability api sub w)) = console w"
  "console (snd (createSubdomainRecord api sub w)) = console w"
  "console (snd (deleteSubdomainRecord api sub w)) = console w"
  "coolify_apps (snd (deleteSubdomainRecord api sub w)) = coolify_apps w"
  by (simp_all add: checkSubdomainAvailability_def createSubdomainRecord_def
        deleteSubdomainRecord_def list_dns_records_def axios_eq take_id_def
        split: option.splits list.splits prod.splits)

lemma findApplicationByName_keeps:
  "console (snd (findApplicationByName n w)) = console w"
  "dns_zone (snd (findApplicationByName n w)) = dns_zone w"
  by (simp_all add: findApplicationByName_def getApplications_def axios_eq split: option.splits)

lemma set_env_and_deploy_keeps:
  "console (snd (set_env_and_deploy i cd w)) = console w"
  "dns_zone (snd (set_env_and_deploy i cd w)) = dns_zone w"
  by (simp_all add: set_env_and_deploy_def axios_eq split: option.splits sum.splits)

lemma create_application_keeps:
  "console (snd (create_application penv sub cd w)) = console w"
  "dns_zone (snd (create_application penv sub cd w)) = dns_zone w"
  by (simp_all add: create_application_def axios_eq take_id_def Let_def
        split: option.splits list.splits)

lemma createDeployment_try_keeps:
  "console (snd (createDeployment_try penv sub cd w)) = console w"
  "dns_zone (snd (createDeployment_try penv sub cd w)) = dns_zone w"
  unfolding createDeployment_try_def
  using findApplicationByName_keeps [of sub w]
  by (auto simp: set_env_and_deploy_keeps create_application_keeps
        split: prod.splits option.splits sum.splits dest!: arg_cong [where f = snd])

lemma createDeployment_keeps:
  "console (snd (createDeployment penv sub cd w)) = console w"
  "dns_zone (snd (createDeployment penv sub cd w)) = dns_zone w"
  using createDeployment_try_keeps [of penv sub cd w]
  by (auto simp: createDeployment_def split: prod.splits sum.splits)

lemma deleteDeployment_keeps:
  "console (snd (deleteDeployment sub w)) = console w"
  by (simp add: deleteDeployment_def findApplicationByName_def getApplications_def axios_eq
        split: option.splits list.splits)

text \<open>The first request of a deletion, and the requests of a deployment that succeeds.\<close>

lemma deleteSubdomainRecord_first_request:
  "sub \<noteq> [] \<Longrightarrow>
   \<exists>rest. sent (snd (deleteSubdomainRecord api sub w)) =
            sent w @ GetDnsRecords (sub @ ''.'' @ domain api) ''A'' # rest"
  by (simp add: deleteSubdomainRecord_def list_dns_records_def axios_eq
        split: option.splits list.splits)

lemma deleteSubdomainRecord_extends:
  "\<exists>new. sent (snd (deleteSubdomainRecord api sub w)) = sent w @ new"
  using sends_only_deleteSubdomainRecord [of w api sub] by (auto simp: sends_only_def)

lemma deleteDeployment_first_request:
  "\<exists>rest. sent (snd (deleteDeployment sub w)) = sent w @ GetApplications # rest"
  by (simp add: deleteDeployment_def findApplicationByName_def getApplications_def axios_eq
        split: option.splits list.splits)

lemma set_env_and_deploy_success:
  "set_env_and_deploy i cd w = (Inr u, w') \<Longrightarrow>
   \<exists>vars. envVariables cd = Inr vars \<and> sent w' = sent w @ [PatchEnvsBulk i vars, GetDeploy i]"
  by (auto simp: set_env_and_deploy_def axios_eq split: sum.splits option.splits)

lemma createDeployment_try_success:
  assumes "createDeployment_try penv sub cd w = (Inr u, w')"
  shows "\<exists>i vars. envVariables cd = Inr vars \<and>
           (new_requests w w' = [GetApplications, PatchEnvsBulk i vars, GetDeploy i] \<or>
            new_requests w w' =
              [GetApplications, PostApplicationsPublic (createPayload penv sub cd),
               PatchEnvsBulk i vars, GetDeploy i])"
  using assms
  by (auto simp: createDeployment_try_def findApplicationByName_def getApplications_def
        create_application_def take_id_def axios_eq new_requests_def Let_def
        split: if_splits prod.splits option.splits sum.splits list.splits
        dest!: set_env_and_deploy_success)

lemma createDeployment_success:
  assumes "createDeployment penv sub cd w = (Inr u, w')"
  shows "\<exists>i vars. envVariables cd = Inr vars \<and>
           (new_requests w w' = [GetApplications, PatchEnvsBulk i vars, GetDeploy i] \<or>
            new_requests w w' =
              [GetApplications, PostApplicationsPublic (createPayload penv sub cd),
               PatchEnvsBulk i vars, GetDeploy i])"
proof -
  from assms have "createDeployment_try penv sub cd w = (Inr u, w')"
    by (auto simp: createDeployment_def split: prod.splits sum.splits)
  then show ?thesis by (rule createDeployment_try_success)
qed

lemma patch_of_deployment:
  assumes "createDeployment penv sub cd w = (r, w') \<or> updateDeployment penv sub cd w = (r, w')"
    and "PatchEnvsBulk i vars \<in> set (new_requests w w')"
  shows "envVariables cd = Inr vars"
proof -
  have "sends_only (coolify_request cd) w w'"
    using assms(1) sends_only_createDeployment [of cd w penv sub]
      sends_only_updateDeployment [of cd w penv sub]
    by auto
  then have "list_all (coolify_request cd) (new_requests w w')"
    by (auto dest: sends_only_new_requests)
  with assms(2) have "coolify_request cd (PatchEnvsBulk i vars)"
    by (auto simp: list_all_iff)
  then show ?thesis by simp
qed

text \<open>A deployment or an update that succeeds has set the variables, once.\<close>

lemma set_env_and_deploy_patch:
  "set_env_and_deploy i cd w = (Inr u, w') \<Longrightarrow>
   \<exists>vars. envVariables cd = Inr vars \<and>
          filter sets_environment (new_requests w w') = [PatchEnvsBulk i vars]"
  by (auto simp: new_requests_def dest!: set_env_and_deploy_success)

lemma createDeployment_patch:
  assumes "createDeployment penv sub cd w = (Inr u, w')"
  shows "\<exists>i vars. envVariables cd = Inr vars \<and>
           filter sets_environment (new_requests w w') = [PatchEnvsBulk i vars]"
  using createDeployment_success [OF assms] by auto

lemma updateDeployment_patch:
  assumes "updateDeployment penv sub cd w = (Inr u, w')"
  shows "\<exists>i vars. envVariables cd = Inr vars \<and>
           filter sets_environment (new_requests w w') = [PatchEnvsBulk i vars]"
proof (cases "findApplicationByName sub w")
  case (Pair found w1)
  have sent1: "sent w1 = sent w @ [GetApplications]"
    using Pair
    by (auto simp: findApplicationByName_def getApplications_def axios_eq split: option.splits)
  show ?thesis
  proof (cases found)
    case None
    with Pair assms have run: "createDeployment penv sub cd w1 = (Inr u, w')"
      by (auto simp: updateDeployment_def split: prod.splits sum.splits)
    have "sends_only (coolify_request cd) w1 w'"
      using sends_only_createDeployment [of cd w1 penv sub] run by simp
    then obtain new where "sent w' = sent w1 @ new"
      by (auto simp: sends_only_def)
    then have "new_requests w w' = GetApplications # new_requests w1 w'"
      using sent1 by (simp add: new_requests_def)
    with createDeployment_patch [OF run] show ?thesis
      by auto
  next
    case (Some app)
    with Pair assms have "set_env_and_deploy (uuid app) cd w1 = (Inr u, w')"
      by (auto simp: updateDeployment_def split: prod.splits sum.splits)
    from set_env_and_deploy_success [OF this] sent1 show ?thesis
      by (auto simp: new_requests_def)
  qed
qed

lemma find_no_application:
  "\<not> (\<exists>a \<in> set apps. app_name a = n) \<Longrightarrow> find (\<lambda>app. app_name app = n) apps = None"
  by (simp add: find_None_iff)

section \<open>Base64 decodes what it encodes\<close>

lemma byte_parts:
  fixes a :: nat
  assumes "a < 256"
  shows "a div 4 < 64" "a div 16 < 16" "a div 64 < 4"
  using assms by (simp_all add: less_mult_imp_div_less)

lemma sextets:
  fixes a b c :: nat
  assumes "a < 256" "b < 256" "c < 256"
  shows "a div 4 < 64" "(a mod 4) * 16 + b div 16 < 64" "(b mod 16) * 4 + c div 64 < 64"
    "c mod 64 < 64" "(a mod 4) * 16 < 64" "(b mod 16) * 4 < 64"
proof -
  have m: "a mod 4 < 4" "b mod 16 < 16" by simp_all
  show "a div 4 < 64" using byte_parts(1) [OF assms(1)] .
  show "(a mod 4) * 16 + b div 16 < 64" using m byte_parts(2) [OF assms(2)] by linarith
  show "(b mod 16) * 4 + c div 64 < 64" using m byte_parts(3) [OF assms(3)] by linarith
  show "c mod 64 < 64" by simp
  show "(a mod 4) * 16 < 64" using m by linarith
  show "(b mod 16) * 4 < 64" using m by linarith
qed

lemma octets:
  fixes a b c :: nat
  assumes "b < 256" "c < 256"
  shows "(a div 4) * 4 + ((a mod 4) * 16 + b div 16) div 16 = a"
    "(((a mod 4) * 16 + b div 16) mod 16) * 16 + ((b mod 16) * 4 + c div 64) div 4 = b"
    "(((b mod 16) * 4 + c div 64) mod 4) * 64 + c mod 64 = c"
    "(a div 4) * 4 + ((a mod 4) * 16) div 16 = a"
    "(((a mod 4) * 16 + b div 16) mod 16) * 16 + ((b mod 16) * 4) div 4 = b"
proof -
  have b16: "b div 16 < 16" and c64: "c div 64 < 4"
    using byte_parts [OF assms(1)] byte_parts [OF assms(2)] by simp_all
  have 1: "((a mod 4) * 16 + b div 16) div 16 = a mod 4" using b16 by simp
  have 2: "((a mod 4) * 16 + b div 16) mod 16 = b div 16" using b16 by simp
  have 3: "((b mod 16) * 4 + c div 64) div 4 = b mod 16" using c64 by simp
  have 4: "((b mod 16) * 4 + c div 64) mod 4 = c div 64" using c64 by simp
  show "(a div 4) * 4 + ((a mod 4) * 16 + b div 16) div 16 = a" using 1 by simp
  show "(((a mod 4) * 16 + b div 16) mod 16) * 16 + ((b mod 16) * 4 + c div 64) div 4 = b"
    using 2 3 by simp
  show "(((b mod 16) * 4 + c div 64) mod 4) * 64 + c mod 64 = c" using 4 by simp
  show "(a div 4) * 4 + ((a mod 4) * 16) div 16 = a" by simp
  show "(((a mod 4) * 16 + b div 16) mod 16) * 16 + ((b mod 16) * 4) div 4 = b"
    using 2 by simp
qed

lemma b64_index_from_nth:
  "distinct xs \<Longrightarrow> n < length xs \<Longrightarrow> b64_index_from i xs (xs ! n) = Some (i + n)"
proof (induction xs arbitrary: i n)
  case Nil
  then show ?case by simp
next
  case (Cons x xs)
  show ?case
  proof (cases n)
    case 0
    then show ?thesis by simp
  next
    case (Suc m)
    with Cons.prems have "xs ! m \<in> set xs" "x \<notin> set xs" "distinct xs" "m < length xs"
      by auto
    with Cons.IH [of m "Suc i"] Suc show ?thesis by auto
  qed
qed

lemma distinct_b64_alphabet: "distinct b64_alphabet"
  by (simp add: b64_alphabet_def)

lemma length_b64_alphabet: "length b64_alphabet = 64"
  by (simp add: b64_alphabet_def)

lemma b64_index_char: "n < 64 \<Longrightarrow> b64_index (b64_char n) = Some n"
  using b64_index_from_nth [OF distinct_b64_alphabet, of n 0]
  by (simp add: b64_index_def b64_char_def length_b64_alphabet)

lemma pad_not_in_alphabet: "CHR ''='' \<notin> set b64_alphabet"
  by (simp add: b64_alphabet_def)

lemma b64_char_not_pad: "b64_char n \<noteq> CHR ''=''"
proof -
  have "n mod 64 < length b64_alphabet" by (simp add: length_b64_alphabet)
  then have "b64_alphabet ! (n mod 64) \<in> set b64_alphabet" by (rule nth_mem)
  with pad_not_in_alphabet show ?thesis by (auto simp: b64_char_def)
qed

lemma decode_one:
  assumes "a < 256"
  shows "base64_decode_bytes (base64_bytes [a]) = Some [a]"
  using sextets [OF assms assms assms] octets [OF assms assms]
  by (simp add: b64_index_char)

lemma decode_two:
  assumes "a < 256" "b < 256"
  shows "base64_decode_bytes (base64_bytes [a, b]) = Some [a, b]"
  using sextets [OF assms assms(2)] octets [OF assms(2) assms(2)]
  by (simp add: b64_index_char b64_char_not_pad)

lemma decode_three:
  assumes "a < 256" "b < 256" "c < 256"
    and "base64_decode_bytes (base64_bytes rest) = Some rest"
  shows "base64_decode_bytes (base64_bytes (a # b # c # rest)) = Some (a # b # c # rest)"
  using sextets [OF assms(1,2,3)] octets [OF assms(2,3)] assms(4)
  by (simp add: b64_index_char b64_char_not_pad)

lemma base64_bytes_roundtrip:
  "\<forall>b \<in> set bs. b < 256 \<Longrightarrow> base64_decode_bytes (base64_bytes bs) = Some bs"
proof (induction bs rule: base64_bytes.induct)
  case 1
  then show ?case by simp
next
  case (2 a)
  then show ?case using decode_one by simp
next
  case (3 a b)
  then show ?case using decode_two by simp
next
  case (4 a b c rest)
  then show ?case using decode_three by simp
qed

lemma base64_roundtrip: "from_base64 (to_base64 s) = Some (utf8_bytes s)"
proof -
  have "\<forall>b \<in> set (map of_char (utf8_bytes s) :: nat list). b < 256"
    by simp
  then have "base64_decode_bytes (base64_bytes (map of_char (utf8_bytes s)))
               = Some (map of_char (utf8_bytes s))"
    by (rule base64_bytes_roundtrip)
  then show ?thesis
    by (simp add: from_base64_def to_base64_def comp_def)
qed

lemma utf8_bytes_plain: "\<not> has_lone_surrogate s \<Longrightarrow> utf8_bytes s = s"
  by (induction s rule: utf8_bytes.induct) simp_all

section \<open>The environment variables\<close>

lemma strip_empty: "strip spaces [] = []"
  by (simp add: strip.simps)

lemma js_trim_empty: "js_trim [] = []"
  by (simp add: js_trim_def strip_empty)

lemma envVariables_html_key:
  assumes "envVariables cd = Inr vars"
  shows "(''NEXT_PUBLIC_CUSTOM_HTML_BASE64'' \<in> key ` set vars) =
           (\<exists>html. opt_get (JObj cd) ''htmlCode'' = JStr html \<and> js_trim html \<noteq> [])"
  using assms
  by (auto simp: envVariables_def Let_def js_trim_empty split: if_splits jsval.splits)

lemma map_of_obj_set_other:
  "k' \<noteq> k \<Longrightarrow> map_of (obj_set obj k v) k' = map_of obj k'"
  by (induction obj) auto

lemma obj_without_keys: "k \<notin> fst ` set (obj_without obj k)"
  by (auto simp: obj_without_def)

section \<open>The example inputs, evaluated\<close>

lemmas service_defs =
  checkSubdomainAvailability_def createSubdomainRecord_def deleteSubdomainRecord_def
  list_dns_records_def cloudflare_handleError_def coolify_handleError_def getApplications_def
  findApplicationByName_def create_application_def set_env_and_deploy_def
  createDeployment_try_def createDeployment_def deleteDeployment_def updateDeployment_def
  axios_def take_id_def console_log_def error_message_def js_or_def

lemmas route_defs =
  getCloudflareAPI_def getCoolifyAPI_def env_set_def env_val_def env_or_def
  deploy_dns_phase_def deploy_cleanup_def deployment_failed_def status_or_500_def
  clientData_of_def

lemma sample_services:
  "getCloudflareAPI sample_env = Some sample_api" "getCoolifyAPI sample_env"
  by (simp_all add: getCloudflareAPI_def getCoolifyAPI_def env_set_def env_val_def env_or_def)

lemma sample_trims:
  "js_trim ''<b>hi</b>'' = ''<b>hi</b>''" "js_trim ''   '' = []"
  by (simp_all add: js_trim_def strip.simps leading_space_def is_prefix_def white_space_def)

lemma sample_base64: "to_base64 ''<b>hi</b>'' = ''PGI+aGk8L2I+''"
  by (simp add: to_base64_def lone_surrogate_def b64_char_def b64_alphabet_def)

lemma acme_envVariables: "envVariables (clientData_of acme) = Inr acme_vars"
  by (simp add: envVariables_def clientData_of_def Let_def js_or_def obj_without_def
        sample_trims sample_base64)

lemma acme_createDeployment:
  "createDeployment sample_env ''acme'' (clientData_of acme) (world_of [] [] []) =
     (Inr (),
      \<lparr>dns_zone = [], coolify_apps = [Application ''id1'' ''acme''], outcomes = [],
       new_ids = [''id2''],
       sent = [GetApplications,
               PostApplicationsPublic (createPayload sample_env ''acme'' (clientData_of acme)),
               PatchEnvsBulk ''id1'' acme_vars, GetDeploy ''id1''],
       console = []\<rparr>)"
  by (simp add: createDeployment_def createDeployment_try_def findApplicationByName_def
        getApplications_def create_application_def set_env_and_deploy_def axios_def
        take_id_def env_set_def env_val_def acme_envVariables)

lemma blank_createDeployment:
  "createDeployment sample_env ''acme'' (clientData_of (acme\<lparr>htmlCode := JStr ''   ''\<rparr>))
     (world_of [] [] []) =
     (Inr (),
      \<lparr>dns_zone = [], coolify_apps = [Application ''id1'' ''acme''], outcomes = [],
       new_ids = [''id2''],
       sent = [GetApplications,
               PostApplicationsPublic
                 (createPayload sample_env ''acme''
                    (clientData_of (acme\<lparr>htmlCode := JStr ''   ''\<rparr>))),
               PatchEnvsBulk ''id1'' blank_vars, GetDeploy ''id1''],
       console = []\<rparr>)"
  by (simp add: createDeployment_def createDeployment_try_def findApplicationByName_def
        getApplications_def create_application_def set_env_and_deploy_def axios_def
        take_id_def env_set_def env_val_def envVariables_def clientData_of_def Let_def
        js_or_def obj_without_def sample_trims)

lemma template_updateDeployment:
  "updateDeployment sample_env ''acme''
     (clientData_of (acme\<lparr>deploymentType := JStr ''template''\<rparr>))
     (world_of [] [Application ''a1'' ''acme''] []) =
     (Inr (),
      \<lparr>dns_zone = [], coolify_apps = [Application ''a1'' ''acme''], outcomes = [],
       new_ids = [''id1'', ''id2''],
       sent = [GetApplications, PatchEnvsBulk ''a1'' template_vars, GetDeploy ''a1''],
       console = []\<rparr>)"
  by (simp add: updateDeployment_def findApplicationByName_def
        getApplications_def set_env_and_deploy_def axios_def
        envVariables_def clientData_of_def Let_def
        js_or_def obj_without_def sample_trims sample_base64)

lemma acme_updateDeployment:
  "updateDeployment sample_env ''acme'' (clientData_of acme)
     (world_of [] [Application ''a1'' ''acme''] []) =
     (Inr (),
      \<lparr>dns_zone = [], coolify_apps = [Application ''a1'' ''acme''], outcomes = [],
       new_ids = [''id1'', ''id2''],
       sent = [GetApplications, PatchEnvsBulk ''a1'' acme_vars, GetDeploy ''a1''],
       console = []\<rparr>)"
  by (simp add: updateDeployment_def findApplicationByName_def
        getApplications_def set_env_and_deploy_def axios_def acme_envVariables)

lemma lone_envVariables:
  "envVariables (clientData_of (acme\<lparr>htmlCode := JStr lone_html\<rparr>)) =
     Inr (blank_vars @ [EnvVar ''NEXT_PUBLIC_CUSTOM_HTML_BASE64'' ''77+9'' True])"
  by (simp add: envVariables_def clientData_of_def Let_def js_or_def obj_without_def
        js_trim_def strip.simps leading_space_def is_prefix_def white_space_def
        to_base64_def lone_surrogate_def b64_char_def b64_alphabet_def)

lemma acme_body_clientData:
  "create_clientData acme_body (JArr []) (JObj []) JUndefined = clientData_of acme"
  by (simp add: create_clientData_def clientData_of_def js_or_def)

lemma acme_body_createDeployment:
  "createDeployment sample_env ''acme'' (clientData_of acme)
     \<lparr>dns_zone = [], coolify_apps = [], outcomes = [], new_ids = [''id1'', ''id2''],
      sent = [GetDnsRecords ''acme.example.com'' ''A'',
              PostDnsRecord ''A'' ''acme'' ''10.0.0.1'' True],
      console = [''Error creating DNS record:'']\<rparr> =
     (Inr (),
      \<lparr>dns_zone = [], coolify_apps = [Application ''id1'' ''acme''], outcomes = [],
       new_ids = [''id2''],
       sent = [GetDnsRecords ''acme.example.com'' ''A'',
               PostDnsRecord ''A'' ''acme'' ''10.0.0.1'' True, GetApplications,
               PostApplicationsPublic (createPayload sample_env ''acme'' (clientData_of acme)),
               PatchEnvsBulk ''id1'' acme_vars, GetDeploy ''id1''],
       console = [''Error creating DNS record:'']\<rparr>)"
  by (simp add: createDeployment_def createDeployment_try_def findApplicationByName_def
        getApplications_def create_application_def set_env_and_deploy_def axios_def
        take_id_def env_set_def env_val_def acme_envVariables)

lemma acme_body_validation: "create_validation acme_body = Passes"
  by (simp add: create_validation_def parsedLinks_def blank_def sample_trims)

section \<open>C1: the flag and the two phases\<close>

text \<open>
  \<open>POST /:id/deploy\<close> sets the flag only after both phases: a client that leaves the
  handler deployed had its DNS phase and its \<open>createDeployment\<close> succeed.
\<close>

lemma deploy_flag_needs_both_phases:
  assumes "deploy_route penv (Some c) w = (resp, Some c', w')"
    and "\<not> isDeployed c" and "isDeployed c'"
  shows "\<exists>api w1 w2.
           getCloudflareAPI penv = Some api
         \<and> deploy_dns_phase api c (console_log ''Starting deployment process for client:'' w) =
             (Inr (), w1)
         \<and> createDeployment penv (subdomain c) (clientData_of c)
             (console_log ''Creating Coolify deployment for:'' w1) = (Inr (), w2)"
  using assms
  by (auto simp: deploy_route_def split: option.splits if_splits prod.splits sum.splits)

text \<open>
  \<open>POST /\<close> answers 400 to a template without links and to a link without address,
  before it calls a provider.
\<close>

lemma create_route_validates_links:
  "create_route sample_env []
     (acme_body\<lparr>body_deploymentType := JStr ''template'', body_htmlCode := JUndefined\<rparr>)
     None (world_of [] [] []) =
     (Response 400
        (JObj [(''message'', JStr ''At least one link is required for template deployment'')]),
      None, world_of [] [] [])"
  "create_route sample_env []
     (acme_body\<lparr>body_deploymentType := JStr ''template'', body_htmlCode := JUndefined,
                 body_links := LinksArray [JObj [(''title'', JStr ''Home'')]]\<rparr>)
     None (world_of [] [] []) =
     (Response 400 (JObj [(''message'', JStr ''Link 1 URL is required'')]),
      None, world_of [] [] [])"
  by (simp_all add: create_route_def create_validation_def parsedLinks_def blank_def
        bad_request_def js_trim_def strip.simps leading_space_def is_prefix_def
        white_space_def show_nat.simps digit_char_def)

text \<open>
  C1. The flag is to read Deployed only if the DNS phase and the deployment phase both
  succeeded. \<open>POST /\<close> does not keep to it. The request of this run passes the
  validation: a custom HTML page with its code, no link, no logo. The zone has no record
  of the name, the provider rejects the creation of the record with status 500, the
  handler logs the error and goes on, the deployment succeeds, and the client is stored
  with \<open>isDeployed = true\<close> while the zone still holds no record; the answer is 201.
\<close>

theorem create_route_deployed_without_dns:
  "create_route sample_env [] acme_body None (world_of [] [] [None, Some status_500]) =
     (Response 201 (JObj (toObject (acme\<lparr>isDeployed := True\<rparr>))),
      Some (acme\<lparr>isDeployed := True\<rparr>),
      \<lparr>dns_zone = [], coolify_apps = [Application ''id1'' ''acme''], outcomes = [],
       new_ids = [''id2''],
       sent = [GetDnsRecords ''acme.example.com'' ''A'',
               PostDnsRecord ''A'' ''acme'' ''10.0.0.1'' True, GetApplications,
               PostApplicationsPublic (createPayload sample_env ''acme'' (clientData_of acme)),
               PatchEnvsBulk ''id1'' acme_vars, GetDeploy ''id1''],
       console = [''Error creating DNS record:'']\<rparr>)"
  using acme_body_createDeployment
  by (simp add: create_route_def acme_body_validation upload_logo_def create_client_def
        parse_links_def parse_customization_def acme_body_clientData new_Client_def
        getCloudflareAPI_def getCoolifyAPI_def
        env_set_def env_val_def env_or_def checkSubdomainAvailability_def
        createSubdomainRecord_def list_dns_records_def axios_def console_log_def js_or_def)

section \<open>C2: undeploying a tenant that has nothing\<close>

text \<open>
  C2, as the code has it. For a tenant with no DNS record and no application, whose DNS
  listing the provider serves, the deletion of the absent record is a success, and the
  absent application makes \<open>deleteDeployment\<close> throw: the handler answers 207 with the one
  error \<open>Failed to delete Coolify deployment\<close>, stores the flag as not deployed, sends
  the two listings and changes nothing at the providers.
\<close>

theorem undeploy_of_nothing_is_partial:
  assumes "getCloudflareAPI penv = Some api" and "getCoolifyAPI penv"
    and "subdomain c \<noteq> []" and "next_outcome w = None"
    and "\<not> (\<exists>r \<in> set (dns_zone w).
              rec_name r = subdomain c @ ''.'' @ domain api \<and> rec_type r = ''A'')"
    and "\<not> (\<exists>a \<in> set (coolify_apps w). app_name a = subdomain c)"
  shows "\<exists>w'. undeploy_route penv (Some c) w =
           (Response 207
              (JObj [(''message'', JStr ''Client partially undeployed''),
                     (''errors'', JArr [JStr ''Failed to delete Coolify deployment''])]),
            Some (c\<lparr>isDeployed := False\<rparr>), w')
          \<and> new_requests w w' =
              [GetDnsRecords (subdomain c @ ''.'' @ domain api) ''A'', GetApplications]
          \<and> dns_zone w' = dns_zone w \<and> coolify_apps w' = coolify_apps w"
proof -
  have none: "filter (\<lambda>r. rec_name r = subdomain c @ ''.'' @ domain api \<and> rec_type r = ''A'')
                (dns_zone w) = []"
    using assms(5) by (simp add: filter_empty_conv)
  have no_app: "find (\<lambda>app. app_name app = subdomain c) (coolify_apps w) = None"
    using assms(6) by (rule find_no_application)
  show ?thesis
    using assms(1-4) none no_app
    by (simp add: undeploy_route_def deleteSubdomainRecord_def list_dns_records_def axios_eq
          console_log_def deleteDeployment_def findApplicationByName_def getApplications_def
          new_requests_def Let_def split: option.splits)
qed

theorem undeploy_of_nothing_is_partial_witness:
  "fst (undeploy_route sample_env (Some (acme\<lparr>isDeployed := True\<rparr>))
          (world_of [DnsRecord ''r9'' ''A'' ''other.example.com'' ''10.0.0.9'']
             [Application ''a9'' ''other''] [])) =
     Response 207
       (JObj [(''message'', JStr ''Client partially undeployed''),
              (''errors'', JArr [JStr ''Failed to delete Coolify deployment''])])
   \<and> fst (snd (undeploy_route sample_env (Some (acme\<lparr>isDeployed := True\<rparr>))
                 (world_of [DnsRecord ''r9'' ''A'' ''other.example.com'' ''10.0.0.9'']
                    [Application ''a9'' ''other''] []))) = Some acme"
proof -
  let ?c = "acme\<lparr>isDeployed := True\<rparr>"
  let ?w = "world_of [DnsRecord ''r9'' ''A'' ''other.example.com'' ''10.0.0.9'']
              [Application ''a9'' ''other''] []"
  have h3: "subdomain ?c \<noteq> []" by simp
  have h4: "next_outcome ?w = None" by (simp add: next_outcome_def)
  have h5: "\<not> (\<exists>r \<in> set (dns_zone ?w).
              rec_name r = subdomain ?c @ ''.'' @ domain sample_api \<and> rec_type r = ''A'')"
    by simp
  have h6: "\<not> (\<exists>a \<in> set (coolify_apps ?w). app_name a = subdomain ?c)"
    by simp
  from undeploy_of_nothing_is_partial [OF sample_services h3 h4 h5 h6]
  show ?thesis by auto
qed

text \<open>
  The claim as stated, full success with no error, fails on the empty zone and the empty
  platform: the answer is 207 with one error.
\<close>

theorem undeploy_of_nothing_counterexample:
  "undeploy_route sample_env (Some acme) (world_of [] [] []) =
     (Response 207
        (JObj [(''message'', JStr ''Client partially undeployed''),
               (''errors'', JArr [JStr ''Failed to delete Coolify deployment''])]),
      Some acme,
      \<lparr>dns_zone = [], coolify_apps = [], outcomes = [], new_ids = [''id1'', ''id2''],
       sent = [GetDnsRecords ''acme.example.com'' ''A'', GetApplications],
       console = [''Starting undeployment for client:'', ''Deleting Cloudflare DNS record for:'',
                  ''Successfully deleted Cloudflare DNS record'',
                  ''Deleting Coolify deployment for:'', ''Error undeploying from Coolify:'',
                  ''Updated client deployment status to false'']\<rparr>)"
  by (simp add: undeploy_route_def getCloudflareAPI_def getCoolifyAPI_def env_set_def
        env_val_def env_or_def deleteSubdomainRecord_def
        list_dns_records_def axios_eq next_outcome_def console_log_def deleteDeployment_def
        findApplicationByName_def getApplications_def coolify_handleError_def)

section \<open>C3: HTTP status and error kind\<close>

text \<open>
  C3, as the code has it. The Cloudflare service gives a response with status \<open>st\<close> the
  kind that section 6 names, keeps the status, and for a status other than 401, 403, 404
  and 429 throws \<open>API_ERROR\<close> with the first message of the body (or its own) and the
  body. The Coolify service gives every status the one kind \<open>API_ERROR\<close>, with the
  status, the body, and the context followed by the body's message, else that of axios;
  this for a response that has a body.
\<close>

theorem status_mapping_of_each_service:
  "error_code (cloudflare_handleError (Axios (AxiosError (Some st) data msg)))
     = Some (spec_error_kind st)
   \<and> error_status (cloudflare_handleError (Axios (AxiosError (Some st) data msg))) = Some st
   \<and> (st \<noteq> 401 \<and> st \<noteq> 403 \<and> st \<noteq> 404 \<and> st \<noteq> 429 \<longrightarrow>
        cloudflare_handleError (Axios (AxiosError (Some st) data msg)) =
          CloudflareAPIError
            (js_or (opt_get (opt_first (opt_get data ''errors'')) ''message'')
               (JStr ''An error occurred with the Cloudflare API''))
            ''API_ERROR'' (Some st) data)
   \<and> (data \<noteq> JUndefined \<and> data \<noteq> JNull \<longrightarrow>
        coolify_handleError (Axios (AxiosError (Some st) data msg)) context =
          CoolifyAPIError
            (context @ '': '' @
             js_toString
               (js_or (opt_get data ''message'')
                  (js_or (JStr msg) (JStr ''An error occurred with the Coolify API''))))
            ''API_ERROR'' (Some st) data)"
  by (simp add: cloudflare_handleError_def coolify_handleError_def spec_error_kind_def)

theorem status_mapping_of_each_service_witness:
  "cloudflare_handleError
     (Axios (AxiosError (Some 500)
               (JObj [(''errors'', JArr [JObj [(''message'', JStr ''boom'')]]),
                      (''message'', JStr ''Server Error'')])
               ''Request failed with status code 500'')) =
     CloudflareAPIError (JStr ''boom'') ''API_ERROR'' (Some 500)
       (JObj [(''errors'', JArr [JObj [(''message'', JStr ''boom'')]]),
              (''message'', JStr ''Server Error'')])
   \<and> coolify_handleError
       (Axios (AxiosError (Some 500)
                 (JObj [(''errors'', JArr [JObj [(''message'', JStr ''boom'')]]),
                        (''message'', JStr ''Server Error'')])
                 ''Request failed with status code 500''))
       ''Failed to create deployment'' =
     CoolifyAPIError ''Failed to create deployment: Server Error'' ''API_ERROR'' (Some 500)
       (JObj [(''errors'', JArr [JObj [(''message'', JStr ''boom'')]]),
              (''message'', JStr ''Server Error'')])"
  using status_mapping_of_each_service
    [of 500 "JObj [(''errors'', JArr [JObj [(''message'', JStr ''boom'')]]),
                   (''message'', JStr ''Server Error'')]"
        "''Request failed with status code 500''" "''Failed to create deployment''"]
  by (simp add: js_or_def)

text \<open>
  The claim as stated fails at 401: the Coolify service throws \<open>API_ERROR\<close> where the
  Cloudflare service throws \<open>UNAUTHORIZED\<close>.
\<close>

theorem status_mapping_counterexample:
  "error_code
     (coolify_handleError
        (Axios (AxiosError (Some 401) (JObj [(''message'', JStr ''Unauthenticated.'')])
                  ''Request failed with status code 401''))
        ''Failed to get applications'') = Some ''API_ERROR''
   \<and> error_code
       (coolify_handleError
          (Axios (AxiosError (Some 401) (JObj [(''message'', JStr ''Unauthenticated.'')])
                    ''Request failed with status code 401''))
          ''Failed to get applications'') \<noteq> Some (spec_error_kind 401)
   \<and> error_code
       (cloudflare_handleError
          (Axios (AxiosError (Some 401) (JObj [(''message'', JStr ''Unauthenticated.'')])
                    ''Request failed with status code 401''))) = Some ''UNAUTHORIZED''"
  by (simp add: coolify_handleError_def cloudflare_handleError_def spec_error_kind_def)

section \<open>C4: a deployment that fails after the DNS phase\<close>

lemma deploy_dns_phase_subdomain:
  "deploy_dns_phase api c w = (Inr u, w') \<Longrightarrow> subdomain c \<noteq> []"
  by (auto simp: deploy_dns_phase_def checkSubdomainAvailability_def split: if_splits)

lemma details_of_deployment_failed:
  "opt_get (res_json (deployment_failed error)) ''details'' = error_message error"
  by (cases error) (simp_all add: deployment_failed_def error_message_def)

text \<open>
  A DNS phase that succeeded leaves an A record of the tenant's name in the zone: the one
  it found or the one it created.
\<close>

lemma deploy_dns_phase_record:
  assumes "deploy_dns_phase api c w = (Inr (), w1)"
  shows "filter (\<lambda>r. rec_name r = subdomain c @ ''.'' @ domain api \<and> rec_type r = ''A'')
           (dns_zone w1) \<noteq> []"
  using assms
  by (auto simp: deploy_dns_phase_def checkSubdomainAvailability_def createSubdomainRecord_def
        list_dns_records_def axios_eq take_id_def console_log_def Let_def
        split: if_splits option.splits prod.splits sum.splits list.splits)

text \<open>
  \<open>deleteSubdomainRecord\<close> in a zone that holds records of the name: when the listing
  is served it asks for the deletion of the first record listed, and that record leaves
  the zone when the deletion is served.
\<close>

lemma deleteSubdomainRecord_found:
  assumes "sub \<noteq> []"
    and "filter (\<lambda>r. rec_name r = sub @ ''.'' @ domain api \<and> rec_type r = ''A'') (dns_zone w)
           = r # others"
    and "deleteSubdomainRecord api sub w = (cleanup, w')"
  shows "case next_outcome w of
           Some e \<Rightarrow>
             cleanup = Inl (cloudflare_handleError (Axios e))
           \<and> new_requests w w' = [GetDnsRecords (sub @ ''.'' @ domain api) ''A'']
           \<and> dns_zone w' = dns_zone w
         | None \<Rightarrow>
             new_requests w w' =
               [GetDnsRecords (sub @ ''.'' @ domain api) ''A'', DeleteDnsRecord (rec_id r)]
           \<and> (case nth_outcome 1 w of
                 Some e \<Rightarrow>
                   cleanup = Inl (cloudflare_handleError (Axios e)) \<and> dns_zone w' = dns_zone w
               | None \<Rightarrow>
                   cleanup = Inr ()
                 \<and> dns_zone w' = filter (\<lambda>x. rec_id x \<noteq> rec_id r) (dns_zone w))"
proof (cases "outcomes w")
  case Nil
  then show ?thesis
    using assms
    by (auto simp: deleteSubdomainRecord_def list_dns_records_def axios_def next_outcome_def
          nth_outcome_def new_requests_def)
next
  case (Cons out outs)
  then show ?thesis
    using assms
    by (cases out; cases outs)
       (auto simp: deleteSubdomainRecord_def list_dns_records_def axios_def next_outcome_def
          nth_outcome_def new_requests_def split: option.splits)
qed

text \<open>
  C4. When the DNS phase of \<open>POST /:id/deploy\<close> succeeded and \<open>createDeployment\<close> then
  throws \<open>error\<close>, the handler runs \<open>deleteSubdomainRecord\<close> for the subdomain. The zone
  then holds a record \<open>r\<close> of the tenant's name. The listing request follows the failed
  deployment; when it is served, the deletion of \<open>r\<close> is requested, and when that is
  served too, \<open>r\<close> leaves the zone. A listing or a deletion that the provider rejects
  makes the clean-up fail and leaves the zone as it was. The handler logs whether the
  clean-up failed, and whatever the clean-up did answers with \<open>error\<close> alone: its
  message is the \<open>details\<close> of the answer. The client is returned as it was, not
  deployed.
\<close>

theorem deploy_failure_is_compensated:
  assumes "\<not> isDeployed c" and "getCloudflareAPI penv = Some api" and "getCoolifyAPI penv"
    and "deploy_dns_phase api c (console_log ''Starting deployment process for client:'' w) =
           (Inr (), w1)"
    and "createDeployment penv (subdomain c) (clientData_of c)
           (console_log ''Creating Coolify deployment for:'' w1) = (Inl error, w2)"
    and "deleteSubdomainRecord api (subdomain c)
           (console_log ''Deployment failed for client:'' w2) = (cleanup, w3)"
  shows "deploy_route penv (Some c) w =
           (deployment_failed error, Some c,
            console_log (if isl cleanup then ''Failed to clean up DNS record:''
                         else ''Cleaned up DNS record after failed deployment'') w3)
         \<and> opt_get (res_json (deployment_failed error)) ''details'' = error_message error
         \<and> (\<exists>rest. sent w3 =
                sent w2 @ GetDnsRecords (subdomain c @ ''.'' @ domain api) ''A'' # rest)
         \<and> (\<exists>r others.
               filter (\<lambda>r. rec_name r = subdomain c @ ''.'' @ domain api \<and> rec_type r = ''A'')
                 (dns_zone w2) = r # others
             \<and> (case next_outcome w2 of
                   Some e \<Rightarrow>
                     cleanup = Inl (cloudflare_handleError (Axios e))
                   \<and> new_requests w2 w3 = [GetDnsRecords (subdomain c @ ''.'' @ domain api) ''A'']
                   \<and> dns_zone w3 = dns_zone w2
                 | None \<Rightarrow>
                     new_requests w2 w3 =
                       [GetDnsRecords (subdomain c @ ''.'' @ domain api) ''A'',
                        DeleteDnsRecord (rec_id r)]
                   \<and> (case nth_outcome 1 w2 of
                         Some e \<Rightarrow>
                           cleanup = Inl (cloudflare_handleError (Axios e))
                         \<and> dns_zone w3 = dns_zone w2
                       | None \<Rightarrow>
                           cleanup = Inr ()
                         \<and> dns_zone w3 = filter (\<lambda>x. rec_id x \<noteq> rec_id r) (dns_zone w2))))"
proof -
  let ?w2 = "console_log ''Deployment failed for client:'' w2"
  let ?fq = "subdomain c @ ''.'' @ domain api"
  have sub: "subdomain c \<noteq> []"
    using assms(4) by (rule deploy_dns_phase_subdomain)
  have route: "deploy_route penv (Some c) w =
           (deployment_failed error, Some c,
            console_log (if isl cleanup then ''Failed to clean up DNS record:''
                         else ''Cleaned up DNS record after failed deployment'') w3)"
    using assms by (cases cleanup) (simp_all add: deploy_route_def deploy_cleanup_def)
  have "\<exists>rest. sent (snd (deleteSubdomainRecord api (subdomain c) ?w2)) =
          sent ?w2 @ GetDnsRecords ?fq ''A'' # rest"
    using sub by (rule deleteSubdomainRecord_first_request)
  then have req: "\<exists>rest. sent w3 = sent w2 @ GetDnsRecords ?fq ''A'' # rest"
    using assms(6) by (simp add: console_log_def)
  have "dns_zone w2 = dns_zone w1"
    using createDeployment_keeps(2)
            [of penv "subdomain c" "clientData_of c"
                "console_log ''Creating Coolify deployment for:'' w1"]
      assms(5)
    by (simp add: console_log_def)
  then have "filter (\<lambda>r. rec_name r = ?fq \<and> rec_type r = ''A'') (dns_zone w2) \<noteq> []"
    using deploy_dns_phase_record [OF assms(4)] by simp
  then obtain r others where
    found: "filter (\<lambda>r. rec_name r = ?fq \<and> rec_type r = ''A'') (dns_zone w2) = r # others"
    by (cases "filter (\<lambda>r. rec_name r = ?fq \<and> rec_type r = ''A'') (dns_zone w2)") auto
  then have found': "filter (\<lambda>r. rec_name r = ?fq \<and> rec_type r = ''A'') (dns_zone ?w2) = r # others"
    by (simp add: console_log_def)
  have outs: "next_outcome ?w2 = next_outcome w2" "nth_outcome 1 ?w2 = nth_outcome 1 w2"
    "new_requests ?w2 w3 = new_requests w2 w3" "dns_zone ?w2 = dns_zone w2"
    by (simp_all add: nth_outcome_def new_requests_def console_log_def)
  have clean: "case next_outcome w2 of
                   Some e \<Rightarrow>
                     cleanup = Inl (cloudflare_handleError (Axios e))
                   \<and> new_requests w2 w3 = [GetDnsRecords ?fq ''A'']
                   \<and> dns_zone w3 = dns_zone w2
                 | None \<Rightarrow>
                     new_requests w2 w3 = [GetDnsRecords ?fq ''A'', DeleteDnsRecord (rec_id r)]
                   \<and> (case nth_outcome 1 w2 of
                         Some e \<Rightarrow>
                           cleanup = Inl (cloudflare_handleError (Axios e))
                         \<and> dns_zone w3 = dns_zone w2
                       | None \<Rightarrow>
                           cleanup = Inr ()
                         \<and> dns_zone w3 = filter (\<lambda>x. rec_id x \<noteq> rec_id r) (dns_zone w2))"
    using deleteSubdomainRecord_found [OF sub found' assms(6)] unfolding outs .
  show ?thesis
    using route req details_of_deployment_failed found clean by blast
qed

lemma acme_failed_deployment:
  "createDeployment sample_env (subdomain acme) (clientData_of acme)
     (console_log ''Creating Coolify deployment for:''
        \<lparr>dns_zone = [DnsRecord ''id1'' ''A'' ''acme.example.com'' ''10.0.0.1''],
         coolify_apps = [], outcomes = None # Some status_500 # outs,
         new_ids = [''id2''],
         sent = [GetDnsRecords ''acme.example.com'' ''A'',
                 PostDnsRecord ''A'' ''acme'' ''10.0.0.1'' True],
         console = [''Starting deployment process for client:'',
                    ''Checking Cloudflare DNS record for:'',
                    ''Creating Cloudflare DNS record for:'',
                    ''Successfully created Cloudflare DNS record'']\<rparr>) =
     (Inl (CoolifyAPIError ''Failed to create deployment: Server Error'' ''API_ERROR''
             (Some 500) (JObj [(''message'', JStr ''Server Error'')])),
      \<lparr>dns_zone = [DnsRecord ''id1'' ''A'' ''acme.example.com'' ''10.0.0.1''],
       coolify_apps = [], outcomes = outs, new_ids = [''id2''],
       sent = [GetDnsRecords ''acme.example.com'' ''A'',
               PostDnsRecord ''A'' ''acme'' ''10.0.0.1'' True, GetApplications,
               PostApplicationsPublic
                 (createPayload sample_env (subdomain acme) (clientData_of acme))],
       console = [''Starting deployment process for client:'',
                  ''Checking Cloudflare DNS record for:'',
                  ''Creating Cloudflare DNS record for:'',
                  ''Successfully created Cloudflare DNS record'',
                  ''Creating Coolify deployment for:'']\<rparr>)"
  by (simp add: service_defs env_set_def env_val_def)

theorem deploy_failure_is_compensated_witness:
  "deploy_route sample_env (Some acme) (world_of [] [] [None, None, None, Some status_500]) =
     (Response 500
        (JObj [(''error'', JStr ''Deployment failed''),
               (''details'', JStr ''Failed to create deployment: Server Error''),
               (''code'', JStr ''API_ERROR''),
               (''apiResponse'', JObj [(''message'', JStr ''Server Error'')])]),
      Some acme,
      \<lparr>dns_zone = [], coolify_apps = [], outcomes = [], new_ids = [''id2''],
       sent = [GetDnsRecords ''acme.example.com'' ''A'',
               PostDnsRecord ''A'' ''acme'' ''10.0.0.1'' True, GetApplications,
               PostApplicationsPublic
                 (createPayload sample_env (subdomain acme) (clientData_of acme)),
               GetDnsRecords ''acme.example.com'' ''A'', DeleteDnsRecord ''id1''],
       console = [''Starting deployment process for client:'',
                  ''Checking Cloudflare DNS record for:'',
                  ''Creating Cloudflare DNS record for:'',
                  ''Successfully created Cloudflare DNS record'',
                  ''Creating Coolify deployment for:'',
                  ''Deployment failed for client:'',
                  ''Cleaned up DNS record after failed deployment'']\<rparr>)
   \<and> deploy_route sample_env (Some acme)
       (world_of [] [] [None, None, None, Some status_500, None, Some status_500]) =
     (Response 500
        (JObj [(''error'', JStr ''Deployment failed''),
               (''details'', JStr ''Failed to create deployment: Server Error''),
               (''code'', JStr ''API_ERROR''),
               (''apiResponse'', JObj [(''message'', JStr ''Server Error'')])]),
      Some acme,
      \<lparr>dns_zone = [DnsRecord ''id1'' ''A'' ''acme.example.com'' ''10.0.0.1''],
       coolify_apps = [], outcomes = [], new_ids = [''id2''],
       sent = [GetDnsRecords ''acme.example.com'' ''A'',
               PostDnsRecord ''A'' ''acme'' ''10.0.0.1'' True, GetApplications,
               PostApplicationsPublic
                 (createPayload sample_env (subdomain acme) (clientData_of acme)),
               GetDnsRecords ''acme.example.com'' ''A'', DeleteDnsRecord ''id1''],
       console = [''Starting deployment process for client:'',
                  ''Checking Cloudflare DNS record for:'',
                  ''Creating Cloudflare DNS record for:'',
                  ''Successfully created Cloudflare DNS record'',
                  ''Creating Coolify deployment for:'',
                  ''Deployment failed for client:'',
                  ''Failed to clean up DNS record:'']\<rparr>)"
proof -
  let ?served = "world_of [] [] [None, None, None, Some status_500]"
  let ?rejected = "world_of [] [] [None, None, None, Some status_500, None, Some status_500]"
  let ?error = "CoolifyAPIError ''Failed to create deployment: Server Error'' ''API_ERROR''
                  (Some 500) (JObj [(''message'', JStr ''Server Error'')])"
  have h1: "\<not> isDeployed acme" by simp
  have a4: "deploy_dns_phase sample_api acme
              (console_log ''Starting deployment process for client:'' ?served) =
            (Inr (),
             \<lparr>dns_zone = [DnsRecord ''id1'' ''A'' ''acme.example.com'' ''10.0.0.1''],
              coolify_apps = [], outcomes = [None, Some status_500],
              new_ids = [''id2''],
              sent = [GetDnsRecords ''acme.example.com'' ''A'',
                      PostDnsRecord ''A'' ''acme'' ''10.0.0.1'' True],
              console = [''Starting deployment process for client:'',
                         ''Checking Cloudflare DNS record for:'',
                         ''Creating Cloudflare DNS record for:'',
                         ''Successfully created Cloudflare DNS record'']\<rparr>)"
    (is "_ = (_, ?a1)")
    by (simp add: service_defs route_defs)
  have a5: "createDeployment sample_env (subdomain acme) (clientData_of acme)
              (console_log ''Creating Coolify deployment for:'' ?a1) =
            (Inl ?error,
             \<lparr>dns_zone = [DnsRecord ''id1'' ''A'' ''acme.example.com'' ''10.0.0.1''],
              coolify_apps = [], outcomes = [], new_ids = [''id2''],
              sent = [GetDnsRecords ''acme.example.com'' ''A'',
                      PostDnsRecord ''A'' ''acme'' ''10.0.0.1'' True, GetApplications,
                      PostApplicationsPublic
                        (createPayload sample_env (subdomain acme) (clientData_of acme))],
              console = [''Starting deployment process for client:'',
                         ''Checking Cloudflare DNS record for:'',
                         ''Creating Cloudflare DNS record for:'',
                         ''Successfully created Cloudflare DNS record'',
                         ''Creating Coolify deployment for:'']\<rparr>)"
    (is "_ = (_, ?a2)")
    by (rule acme_failed_deployment)
  have a6: "deleteSubdomainRecord sample_api (subdomain acme)
              (console_log ''Deployment failed for client:'' ?a2) =
            (Inr (),
             \<lparr>dns_zone = [], coolify_apps = [], outcomes = [], new_ids = [''id2''],
              sent = [GetDnsRecords ''acme.example.com'' ''A'',
                      PostDnsRecord ''A'' ''acme'' ''10.0.0.1'' True, GetApplications,
                      PostApplicationsPublic
                        (createPayload sample_env (subdomain acme) (clientData_of acme)),
                      GetDnsRecords ''acme.example.com'' ''A'', DeleteDnsRecord ''id1''],
              console = [''Starting deployment process for client:'',
                         ''Checking Cloudflare DNS record for:'',
                         ''Creating Cloudflare DNS record for:'',
                         ''Successfully created Cloudflare DNS record'',
                         ''Creating Coolify deployment for:'',
                         ''Deployment failed for client:'']\<rparr>)"
    by (simp add: deleteSubdomainRecord_def list_dns_records_def axios_def console_log_def)
  have b4: "deploy_dns_phase sample_api acme
              (console_log ''Starting deployment process for client:'' ?rejected) =
            (Inr (),
             \<lparr>dns_zone = [DnsRecord ''id1'' ''A'' ''acme.example.com'' ''10.0.0.1''],
              coolify_apps = [], outcomes = [None, Some status_500, None, Some status_500],
              new_ids = [''id2''],
              sent = [GetDnsRecords ''acme.example.com'' ''A'',
                      PostDnsRecord ''A'' ''acme'' ''10.0.0.1'' True],
              console = [''Starting deployment process for client:'',
                         ''Checking Cloudflare DNS record for:'',
                         ''Creating Cloudflare DNS record for:'',
                         ''Successfully created Cloudflare DNS record'']\<rparr>)"
    (is "_ = (_, ?b1)")
    by (simp add: service_defs route_defs)
  have b5: "createDeployment sample_env (subdomain acme) (clientData_of acme)
              (console_log ''Creating Coolify deployment for:'' ?b1) =
            (Inl ?error,
             \<lparr>dns_zone = [DnsRecord ''id1'' ''A'' ''acme.example.com'' ''10.0.0.1''],
              coolify_apps = [], outcomes = [None, Some status_500], new_ids = [''id2''],
              sent = [GetDnsRecords ''acme.example.com'' ''A'',
                      PostDnsRecord ''A'' ''acme'' ''10.0.0.1'' True, GetApplications,
                      PostApplicationsPublic
                        (createPayload sample_env (subdomain acme) (clientData_of acme))],
              console = [''Starting deployment process for client:'',
                         ''Checking Cloudflare DNS record for:'',
                         ''Creating Cloudflare DNS record for:'',
                         ''Successfully created Cloudflare DNS record'',
                         ''Creating Coolify deployment for:'']\<rparr>)"
    (is "_ = (_, ?b2)")
    by (rule acme_failed_deployment)
  have b6: "deleteSubdomainRecord sample_api (subdomain acme)
              (console_log ''Deployment failed for client:'' ?b2) =
            (Inl (cloudflare_handleError (Axios status_500)),
             \<lparr>dns_zone = [DnsRecord ''id1'' ''A'' ''acme.example.com'' ''10.0.0.1''],
              coolify_apps = [], outcomes = [], new_ids = [''id2''],
              sent = [GetDnsRecords ''acme.example.com'' ''A'',
                      PostDnsRecord ''A'' ''acme'' ''10.0.0.1'' True, GetApplications,
                      PostApplicationsPublic
                        (createPayload sample_env (subdomain acme) (clientData_of acme)),
                      GetDnsRecords ''acme.example.com'' ''A'', DeleteDnsRecord ''id1''],
              console = [''Starting deployment process for client:'',
                         ''Checking Cloudflare DNS record for:'',
                         ''Creating Cloudflare DNS record for:'',
                         ''Successfully created Cloudflare DNS record'',
                         ''Creating Coolify deployment for:'',
                         ''Deployment failed for client:'']\<rparr>)"
    by (simp add: deleteSubdomainRecord_def list_dns_records_def axios_def console_log_def)
  have served: "deploy_route sample_env (Some acme) ?served =
      (deployment_failed ?error, Some acme,
       console_log ''Cleaned up DNS record after failed deployment''
         \<lparr>dns_zone = [], coolify_apps = [], outcomes = [], new_ids = [''id2''],
          sent = [GetDnsRecords ''acme.example.com'' ''A'',
                  PostDnsRecord ''A'' ''acme'' ''10.0.0.1'' True, GetApplications,
                  PostApplicationsPublic
                    (createPayload sample_env (subdomain acme) (clientData_of acme)),
                  GetDnsRecords ''acme.example.com'' ''A'', DeleteDnsRecord ''id1''],
          console = [''Starting deployment process for client:'',
                     ''Checking Cloudflare DNS record for:'',
                     ''Creating Cloudflare DNS record for:'',
                     ''Successfully created Cloudflare DNS record'',
                     ''Creating Coolify deployment for:'',
                     ''Deployment failed for client:'']\<rparr>)"
    using deploy_failure_is_compensated [OF h1 sample_services a4 a5 a6] by simp
  have rejected: "deploy_route sample_env (Some acme) ?rejected =
      (deployment_failed ?error, Some acme,
       console_log ''Failed to clean up DNS record:''
         \<lparr>dns_zone = [DnsRecord ''id1'' ''A'' ''acme.example.com'' ''10.0.0.1''],
          coolify_apps = [], outcomes = [], new_ids = [''id2''],
          sent = [GetDnsRecords ''acme.example.com'' ''A'',
                  PostDnsRecord ''A'' ''acme'' ''10.0.0.1'' True, GetApplications,
                  PostApplicationsPublic
                    (createPayload sample_env (subdomain acme) (clientData_of acme)),
                  GetDnsRecords ''acme.example.com'' ''A'', DeleteDnsRecord ''id1''],
          console = [''Starting deployment process for client:'',
                     ''Checking Cloudflare DNS record for:'',
                     ''Creating Cloudflare DNS record for:'',
                     ''Successfully created Cloudflare DNS record'',
                     ''Creating Coolify deployment for:'',
                     ''Deployment failed for client:'']\<rparr>)"
    using deploy_failure_is_compensated [OF h1 sample_services b4 b5 b6] by simp
  show ?thesis
    unfolding served rejected
    by (simp add: deployment_failed_def status_or_500_def console_log_def)
qed

section \<open>C5: the two phases of undeploy\<close>

text \<open>
  C5. \<open>DELETE /:id/deploy\<close> runs \<open>deleteSubdomainRecord\<close> and then, whatever came of
  it, \<open>deleteDeployment\<close>: the listing of the applications is always sent and both
  phases are logged. The answer lists the error of each phase that failed, in order. With
  no failure it is 200, with one it is 207, and in both cases the flag is stored as not
  deployed; with two failures it is 500 and the client is left as it was.
\<close>

theorem undeploy_runs_both_phases:
  assumes "getCloudflareAPI penv = Some api" and "getCoolifyAPI penv"
    and "deleteSubdomainRecord api (subdomain c)
           (console_log ''Deleting Cloudflare DNS record for:''
              (console_log ''Starting undeployment for client:'' w)) = (dns, w1)"
    and "deleteDeployment (subdomain c)
           (console_log ''Deleting Coolify deployment for:''
              (console_log (if isl dns then ''Error deleting DNS record:''
                            else ''Successfully deleted Cloudflare DNS record'') w1)) = (app, w2)"
  shows "undeploy_route penv (Some c) w =
           (Response (if isl dns \<and> isl app then 500 else if isl dns \<or> isl app then 207 else 200)
              (JObj ((''message'',
                      JStr (if isl dns \<and> isl app then ''Failed to undeploy client''
                            else if isl dns \<or> isl app then ''Client partially undeployed''
                            else ''Client undeployed successfully'')) #
                     (if isl dns \<or> isl app then
                        [(''errors'',
                          JArr (map JStr
                            ((if isl dns then [''Failed to delete DNS record''] else []) @
                             (if isl app then [''Failed to delete Coolify deployment''] else []))))]
                      else []))),
            Some (if isl dns \<and> isl app then c else c\<lparr>isDeployed := False\<rparr>),
            (if isl dns \<and> isl app then id
             else console_log ''Updated client deployment status to false'')
              (console_log (if isl app then ''Error undeploying from Coolify:''
                            else ''Successfully deleted Coolify deployment'') w2))
          \<and> GetApplications \<in> set (new_requests w w2)
          \<and> ''Deleting Cloudflare DNS record for:'' \<in> set (console w2)
          \<and> ''Deleting Coolify deployment for:'' \<in> set (console w2)"
proof -
  let ?w0 = "console_log ''Deleting Cloudflare DNS record for:''
              (console_log ''Starting undeployment for client:'' w)"
  let ?w1 = "console_log ''Deleting Coolify deployment for:''
              (console_log (if isl dns then ''Error deleting DNS record:''
                            else ''Successfully deleted Cloudflare DNS record'') w1)"
  have route: "undeploy_route penv (Some c) w =
           (Response (if isl dns \<and> isl app then 500 else if isl dns \<or> isl app then 207 else 200)
              (JObj ((''message'',
                      JStr (if isl dns \<and> isl app then ''Failed to undeploy client''
                            else if isl dns \<or> isl app then ''Client partially undeployed''
                            else ''Client undeployed successfully'')) #
                     (if isl dns \<or> isl app then
                        [(''errors'',
                          JArr (map JStr
                            ((if isl dns then [''Failed to delete DNS record''] else []) @
                             (if isl app then [''Failed to delete Coolify deployment''] else []))))]
                      else []))),
            Some (if isl dns \<and> isl app then c else c\<lparr>isDeployed := False\<rparr>),
            (if isl dns \<and> isl app then id
             else console_log ''Updated client deployment status to false'')
              (console_log (if isl app then ''Error undeploying from Coolify:''
                            else ''Successfully deleted Coolify deployment'') w2))"
    using assms by (cases dns; cases app) (simp_all add: undeploy_route_def)
  obtain new1 where n1: "sent w1 = sent w @ new1"
    using deleteSubdomainRecord_extends [of api "subdomain c" ?w0] assms(3)
    by (auto simp: console_log_def)
  obtain rest where n2: "sent w2 = sent w1 @ GetApplications # rest"
    using deleteDeployment_first_request [of "subdomain c" ?w1] assms(4)
    by (auto simp: console_log_def)
  have req: "GetApplications \<in> set (new_requests w w2)"
    using n1 n2 by (simp add: new_requests_def)
  have c1: "console w1 = console ?w0"
    using cloudflare_keeps(3) [of api "subdomain c" ?w0] assms(3) by simp
  have c2: "console w2 = console ?w1"
    using deleteDeployment_keeps [of "subdomain c" ?w1] assms(4) by simp
  have cons: "''Deleting Cloudflare DNS record for:'' \<in> set (console w2)"
    "''Deleting Coolify deployment for:'' \<in> set (console w2)"
    using c1 c2 by (simp_all add: console_log_def)
  show ?thesis
    using route req cons by blast
qed

theorem undeploy_runs_both_phases_witness:
  "undeploy_route sample_env (Some (acme\<lparr>isDeployed := True\<rparr>))
     (world_of [acme_record] [Application ''a1'' ''acme''] [None, None, None, Some status_500]) =
     (Response 207
        (JObj [(''message'', JStr ''Client partially undeployed''),
               (''errors'', JArr [JStr ''Failed to delete Coolify deployment''])]),
      Some acme,
      \<lparr>dns_zone = [], coolify_apps = [Application ''a1'' ''acme''], outcomes = [],
       new_ids = [''id1'', ''id2''],
       sent = [GetDnsRecords ''acme.example.com'' ''A'', DeleteDnsRecord ''r1'',
               GetApplications, DeleteApplication ''a1''],
       console = [''Starting undeployment for client:'', ''Deleting Cloudflare DNS record for:'',
                  ''Successfully deleted Cloudflare DNS record'',
                  ''Deleting Coolify deployment for:'', ''Error undeploying from Coolify:'',
                  ''Updated client deployment status to false'']\<rparr>)"
proof -
  let ?c = "acme\<lparr>isDeployed := True\<rparr>"
  let ?w = "world_of [acme_record] [Application ''a1'' ''acme'']
              [None, None, None, Some status_500]"
  have h3: "deleteSubdomainRecord sample_api (subdomain ?c)
              (console_log ''Deleting Cloudflare DNS record for:''
                 (console_log ''Starting undeployment for client:'' ?w)) =
            (Inr (),
             \<lparr>dns_zone = [], coolify_apps = [Application ''a1'' ''acme''],
              outcomes = [None, Some status_500], new_ids = [''id1'', ''id2''],
              sent = [GetDnsRecords ''acme.example.com'' ''A'', DeleteDnsRecord ''r1''],
              console = [''Starting undeployment for client:'',
                         ''Deleting Cloudflare DNS record for:'']\<rparr>)"
    (is "_ = (?dns, ?w1)")
    by (simp add: deleteSubdomainRecord_def list_dns_records_def axios_def console_log_def)
  have h4: "deleteDeployment (subdomain ?c)
              (console_log ''Deleting Coolify deployment for:''
                 (console_log (if isl ?dns then ''Error deleting DNS record:''
                               else ''Successfully deleted Cloudflare DNS record'') ?w1)) =
            (Inl (coolify_handleError (Axios status_500) ''Failed to delete deployment''),
             \<lparr>dns_zone = [], coolify_apps = [Application ''a1'' ''acme''],
              outcomes = [], new_ids = [''id1'', ''id2''],
              sent = [GetDnsRecords ''acme.example.com'' ''A'', DeleteDnsRecord ''r1'',
                      GetApplications, DeleteApplication ''a1''],
              console = [''Starting undeployment for client:'',
                         ''Deleting Cloudflare DNS record for:'',
                         ''Successfully deleted Cloudflare DNS record'',
                         ''Deleting Coolify deployment for:'']\<rparr>)"
    by (simp add: deleteDeployment_def findApplicationByName_def getApplications_def axios_def
          console_log_def)
  show ?thesis
    using undeploy_runs_both_phases [OF sample_services h3 h4]
    by (simp add: console_log_def)
qed

section \<open>C6: the variables that carry the client data\<close>

text \<open>
  C6. A \<open>createDeployment\<close> or \<open>updateDeployment\<close> that succeeds has sent the variables
  built from the client data, in one request. The variables that either sends hold, once
  each, \<open>CLIENT_DATA\<close> and \<open>NEXT_PUBLIC_CLIENT_DATA\<close> with the same value, the JSON
  text of the client data with \<open>logo\<close> set and without the property \<open>htmlCode\<close>, and
  \<open>NODE_ENV\<close> with \<open>production\<close>; no key but these and
  \<open>NEXT_PUBLIC_CUSTOM_HTML_BASE64\<close> occurs. When \<open>htmlCode\<close> is a string that is
  not blank, that last variable is there once and its value decodes to the bytes of
  \<open>Buffer.from(htmlCode, 'utf8')\<close>: the string with U+FFFD in the place of each
  surrogate that is not part of a pair, and so the string itself when it has none.
\<close>

theorem client_data_variables:
  assumes "createDeployment penv sub cd w = (r, w') \<or> updateDeployment penv sub cd w = (r, w')"
  shows "\<exists>payload.
           payload = obj_without (obj_set cd ''logo'' (js_or (opt_get (JObj cd) ''logo'') JNull))
                       ''htmlCode''
         \<and> ''htmlCode'' \<notin> fst ` set payload
         \<and> (r = Inr () \<longrightarrow>
              (\<exists>i vars. envVariables cd = Inr vars \<and>
                 filter sets_environment (new_requests w w') = [PatchEnvsBulk i vars]))
         \<and> (\<forall>i vars. PatchEnvsBulk i vars \<in> set (new_requests w w') \<longrightarrow>
               filter (\<lambda>v. key v = ''CLIENT_DATA'') vars =
                 [EnvVar ''CLIENT_DATA'' (JSON_stringify payload) True]
             \<and> filter (\<lambda>v. key v = ''NEXT_PUBLIC_CLIENT_DATA'') vars =
                 [EnvVar ''NEXT_PUBLIC_CLIENT_DATA'' (JSON_stringify payload) True]
             \<and> filter (\<lambda>v. key v = ''NODE_ENV'') vars =
                 [EnvVar ''NODE_ENV'' ''production'' True]
             \<and> key ` set vars \<subseteq> {''CLIENT_DATA'', ''NODE_ENV'', ''NEXT_PUBLIC_CLIENT_DATA'',
                                   ''NEXT_PUBLIC_CUSTOM_HTML_BASE64''}
             \<and> (\<forall>html. opt_get (JObj cd) ''htmlCode'' = JStr html \<and> js_trim html \<noteq> [] \<longrightarrow>
                   (\<exists>encoded. filter (\<lambda>v. key v = ''NEXT_PUBLIC_CUSTOM_HTML_BASE64'') vars =
                                 [EnvVar ''NEXT_PUBLIC_CUSTOM_HTML_BASE64'' encoded True]
                              \<and> from_base64 encoded = Some (utf8_bytes html)
                              \<and> (\<not> has_lone_surrogate html \<longrightarrow>
                                   from_base64 encoded = Some html))))"
proof -
  have sent_vars: "r = Inr () \<longrightarrow>
      (\<exists>i vars. envVariables cd = Inr vars \<and>
         filter sets_environment (new_requests w w') = [PatchEnvsBulk i vars])"
    using assms createDeployment_patch [of penv sub cd w "()" w']
      updateDeployment_patch [of penv sub cd w "()" w']
    by auto
  have each: "filter (\<lambda>v. key v = ''CLIENT_DATA'') vars =
                 [EnvVar ''CLIENT_DATA''
                    (JSON_stringify
                       (obj_without
                          (obj_set cd ''logo'' (js_or (opt_get (JObj cd) ''logo'') JNull))
                          ''htmlCode'')) True]
             \<and> filter (\<lambda>v. key v = ''NEXT_PUBLIC_CLIENT_DATA'') vars =
                 [EnvVar ''NEXT_PUBLIC_CLIENT_DATA''
                    (JSON_stringify
                       (obj_without
                          (obj_set cd ''logo'' (js_or (opt_get (JObj cd) ''logo'') JNull))
                          ''htmlCode'')) True]
             \<and> filter (\<lambda>v. key v = ''NODE_ENV'') vars =
                 [EnvVar ''NODE_ENV'' ''production'' True]
             \<and> key ` set vars \<subseteq> {''CLIENT_DATA'', ''NODE_ENV'', ''NEXT_PUBLIC_CLIENT_DATA'',
                                   ''NEXT_PUBLIC_CUSTOM_HTML_BASE64''}
             \<and> (\<forall>html. opt_get (JObj cd) ''htmlCode'' = JStr html \<and> js_trim html \<noteq> [] \<longrightarrow>
                   (\<exists>encoded. filter (\<lambda>v. key v = ''NEXT_PUBLIC_CUSTOM_HTML_BASE64'') vars =
                                 [EnvVar ''NEXT_PUBLIC_CUSTOM_HTML_BASE64'' encoded True]
                              \<and> from_base64 encoded = Some (utf8_bytes html)
                              \<and> (\<not> has_lone_surrogate html \<longrightarrow>
                                   from_base64 encoded = Some html)))"
    if "PatchEnvsBulk i vars \<in> set (new_requests w w')" for i vars
  proof -
    have vars: "envVariables cd = Inr vars"
      using assms that by (rule patch_of_deployment)
    show ?thesis
      using vars
      by (auto simp: envVariables_def Let_def js_trim_empty base64_roundtrip utf8_bytes_plain
            split: if_splits jsval.splits)
  qed
  have every: "\<forall>i vars. PatchEnvsBulk i vars \<in> set (new_requests w w') \<longrightarrow>
               filter (\<lambda>v. key v = ''CLIENT_DATA'') vars =
                 [EnvVar ''CLIENT_DATA''
                    (JSON_stringify
                       (obj_without
                          (obj_set cd ''logo'' (js_or (opt_get (JObj cd) ''logo'') JNull))
                          ''htmlCode'')) True]
             \<and> filter (\<lambda>v. key v = ''NEXT_PUBLIC_CLIENT_DATA'') vars =
                 [EnvVar ''NEXT_PUBLIC_CLIENT_DATA''
                    (JSON_stringify
                       (obj_without
                          (obj_set cd ''logo'' (js_or (opt_get (JObj cd) ''logo'') JNull))
                          ''htmlCode'')) True]
             \<and> filter (\<lambda>v. key v = ''NODE_ENV'') vars =
                 [EnvVar ''NODE_ENV'' ''production'' True]
             \<and> key ` set vars \<subseteq> {''CLIENT_DATA'', ''NODE_ENV'', ''NEXT_PUBLIC_CLIENT_DATA'',
                                   ''NEXT_PUBLIC_CUSTOM_HTML_BASE64''}
             \<and> (\<forall>html. opt_get (JObj cd) ''htmlCode'' = JStr html \<and> js_trim html \<noteq> [] \<longrightarrow>
                   (\<exists>encoded. filter (\<lambda>v. key v = ''NEXT_PUBLIC_CUSTOM_HTML_BASE64'') vars =
                                 [EnvVar ''NEXT_PUBLIC_CUSTOM_HTML_BASE64'' encoded True]
                              \<and> from_base64 encoded = Some (utf8_bytes html)
                              \<and> (\<not> has_lone_surrogate html \<longrightarrow>
                                   from_base64 encoded = Some html)))"
    using each by (intro allI impI)
  have no_html: "''htmlCode'' \<notin> fst ` set
      (obj_without (obj_set cd ''logo'' (js_or (opt_get (JObj cd) ''logo'') JNull)) ''htmlCode'')"
    by (rule obj_without_keys)
  show ?thesis
    by (rule exI [of _ "obj_without
          (obj_set cd ''logo'' (js_or (opt_get (JObj cd) ''logo'') JNull)) ''htmlCode''"])
       (intro conjI refl no_html sent_vars every)
qed

theorem client_data_variables_witness:
  "filter sets_environment
     (new_requests (world_of [] [] [])
        (snd (createDeployment sample_env ''acme'' (clientData_of acme) (world_of [] [] [])))) =
     [PatchEnvsBulk ''id1'' acme_vars]
   \<and> filter sets_environment
       (new_requests (world_of [] [Application ''a1'' ''acme''] [])
          (snd (updateDeployment sample_env ''acme'' (clientData_of acme)
                  (world_of [] [Application ''a1'' ''acme''] [])))) =
       [PatchEnvsBulk ''a1'' acme_vars]
   \<and> from_base64 ''PGI+aGk8L2I+'' = Some ''<b>hi</b>''
   \<and> ''htmlCode'' \<notin> fst ` set acme_payload
   \<and> filter (\<lambda>v. key v = ''CLIENT_DATA'') acme_vars =
       [EnvVar ''CLIENT_DATA'' (JSON_stringify acme_payload) True]
   \<and> filter (\<lambda>v. key v = ''NEXT_PUBLIC_CLIENT_DATA'') acme_vars =
       [EnvVar ''NEXT_PUBLIC_CLIENT_DATA'' (JSON_stringify acme_payload) True]"
proof -
  let ?w = "world_of [] [] []"
  let ?v = "world_of [] [Application ''a1'' ''acme''] []"
  let ?create = "createDeployment sample_env ''acme'' (clientData_of acme) ?w"
  let ?update = "updateDeployment sample_env ''acme'' (clientData_of acme) ?v"
  have h1: "?create = (Inr (), snd ?create) \<or>
            updateDeployment sample_env ''acme'' (clientData_of acme) ?w = (Inr (), snd ?create)"
    unfolding acme_createDeployment by simp
  have h2: "createDeployment sample_env ''acme'' (clientData_of acme) ?v = (Inr (), snd ?update)
            \<or> ?update = (Inr (), snd ?update)"
    unfolding acme_updateDeployment by simp
  have sent1: "PatchEnvsBulk ''id1'' acme_vars \<in> set (new_requests ?w (snd ?create))"
    unfolding acme_createDeployment by (simp add: new_requests_def)
  have sent2: "PatchEnvsBulk ''a1'' acme_vars \<in> set (new_requests ?v (snd ?update))"
    unfolding acme_updateDeployment by (simp add: new_requests_def)
  have html: "opt_get (JObj (clientData_of acme)) ''htmlCode'' = JStr ''<b>hi</b>''
              \<and> js_trim ''<b>hi</b>'' \<noteq> [] \<and> \<not> has_lone_surrogate ''<b>hi</b>''"
    by (simp add: clientData_of_def sample_trims lone_surrogate_def)
  from client_data_variables [OF h1] sent1 html
  have "\<exists>encoded. filter (\<lambda>v. key v = ''NEXT_PUBLIC_CUSTOM_HTML_BASE64'') acme_vars =
                    [EnvVar ''NEXT_PUBLIC_CUSTOM_HTML_BASE64'' encoded True]
                  \<and> from_base64 encoded = Some ''<b>hi</b>''"
    by blast
  then have decoded: "from_base64 ''PGI+aGk8L2I+'' = Some ''<b>hi</b>''"
    by simp
  from client_data_variables [OF h1]
  have "\<exists>i vars. filter sets_environment (new_requests ?w (snd ?create)) = [PatchEnvsBulk i vars]"
    by blast
  with sent1 have first: "filter sets_environment (new_requests ?w (snd ?create)) =
      [PatchEnvsBulk ''id1'' acme_vars]"
    unfolding acme_createDeployment by (simp add: new_requests_def)
  from client_data_variables [OF h2]
  have "\<exists>i vars. filter sets_environment (new_requests ?v (snd ?update)) = [PatchEnvsBulk i vars]"
    by blast
  with sent2 have second: "filter sets_environment (new_requests ?v (snd ?update)) =
      [PatchEnvsBulk ''a1'' acme_vars]"
    unfolding acme_updateDeployment by (simp add: new_requests_def)
  show ?thesis
    using first second decoded by simp
qed

text \<open>
  C6 as the specification words it, that the value decodes back to the original HTML
  exactly, fails for the HTML \<open>"\uD800"\<close>. \<open>createDeployment\<close> sends \<open>77+9\<close> for it,
  the base64 text of \<open>EF BF BD\<close>, which decodes to U+FFFD and not to the surrogate.
\<close>

theorem client_data_variables_counterexample:
  "createDeployment sample_env ''acme'' (clientData_of (acme\<lparr>htmlCode := JStr lone_html\<rparr>))
     (world_of [] [] []) =
     (Inr (),
      \<lparr>dns_zone = [], coolify_apps = [Application ''id1'' ''acme''], outcomes = [],
       new_ids = [''id2''],
       sent = [GetApplications,
               PostApplicationsPublic
                 (createPayload sample_env ''acme''
                    (clientData_of (acme\<lparr>htmlCode := JStr lone_html\<rparr>))),
               PatchEnvsBulk ''id1''
                 (blank_vars @ [EnvVar ''NEXT_PUBLIC_CUSTOM_HTML_BASE64'' ''77+9'' True]),
               GetDeploy ''id1''],
       console = []\<rparr>)
   \<and> js_trim lone_html \<noteq> []
   \<and> from_base64 ''77+9'' = Some [CHR 0xEF, CHR 0xBF, CHR 0xBD]
   \<and> from_base64 ''77+9'' \<noteq> Some lone_html"
proof -
  have run: "createDeployment sample_env ''acme''
      (clientData_of (acme\<lparr>htmlCode := JStr lone_html\<rparr>)) (world_of [] [] []) =
     (Inr (),
      \<lparr>dns_zone = [], coolify_apps = [Application ''id1'' ''acme''], outcomes = [],
       new_ids = [''id2''],
       sent = [GetApplications,
               PostApplicationsPublic
                 (createPayload sample_env ''acme''
                    (clientData_of (acme\<lparr>htmlCode := JStr lone_html\<rparr>))),
               PatchEnvsBulk ''id1''
                 (blank_vars @ [EnvVar ''NEXT_PUBLIC_CUSTOM_HTML_BASE64'' ''77+9'' True]),
               GetDeploy ''id1''],
       console = []\<rparr>)"
    using lone_envVariables
    by (simp add: createDeployment_def createDeployment_try_def findApplicationByName_def
        getApplications_def create_application_def set_env_and_deploy_def axios_def
        take_id_def env_set_def env_val_def)
  have trim: "js_trim lone_html \<noteq> []"
    by (simp add: js_trim_def strip.simps leading_space_def is_prefix_def white_space_def)
  have enc: "to_base64 lone_html = ''77+9''"
    by (simp add: to_base64_def lone_surrogate_def b64_char_def b64_alphabet_def)
  have "from_base64 (to_base64 lone_html) = Some (utf8_bytes lone_html)"
    by (rule base64_roundtrip)
  then have dec: "from_base64 ''77+9'' = Some [CHR 0xEF, CHR 0xBF, CHR 0xBD]"
    unfolding enc by (simp add: lone_surrogate_def)
  show ?thesis
    using run trim dec by simp
qed

section \<open>C7: deploying when the DNS record exists\<close>

lemma deploy_dns_phase_existing:
  assumes "subdomain c \<noteq> []" and "next_outcome w = None"
    and "\<exists>r \<in> set (dns_zone w).
           rec_name r = subdomain c @ ''.'' @ domain api \<and> rec_type r = ''A''"
  shows "deploy_dns_phase api c w =
           (Inr (),
            console_log ''DNS record already exists for:''
              (snd (axios (GetDnsRecords (subdomain c @ ''.'' @ domain api) ''A'')
                      (console_log ''Checking Cloudflare DNS record for:'' w))))"
proof -
  have "filter (\<lambda>r. rec_name r = subdomain c @ ''.'' @ domain api \<and> rec_type r = ''A'')
          (dns_zone w) \<noteq> []"
    using assms(3) by (simp add: filter_empty_conv)
  then show ?thesis
    using assms(1,2)
    by (simp add: deploy_dns_phase_def checkSubdomainAvailability_def list_dns_records_def
          axios_eq console_log_def)
qed

lemma sends_only_deploy_cleanup:
  "sends_only (\<lambda>q. \<not> creates_dns_record q) w (deploy_cleanup api c w)"
  using sends_only_deleteSubdomainRecord [of w api "subdomain c"]
  by (auto simp: deploy_cleanup_def split: prod.splits sum.splits)

lemma console_deploy_cleanup: "set (console w) \<subseteq> set (console (deploy_cleanup api c w))"
  using cloudflare_keeps(3) [of api "subdomain c" w]
  by (auto simp: deploy_cleanup_def console_log_def split: prod.splits sum.splits)

text \<open>
  \<open>createDeployment\<close> finds the application or creates it: when the listing of the
  applications is served and shows one of the name, none is created and the variables
  and the deploy go to its \<open>uuid\<close>; when the listing shows none, or is rejected, which
  \<open>findApplicationByName\<close> takes for none, a deployment that succeeds has created one.
\<close>

lemma createDeployment_existing:
  assumes "next_outcome w = None"
    and "find (\<lambda>a. app_name a = sub) (coolify_apps w) = Some app"
    and "createDeployment penv sub cd w = (dep, w')"
  shows "list_all (\<lambda>q. \<not> creates_application q) (new_requests w w')
         \<and> coolify_apps w' = coolify_apps w
         \<and> (dep = Inr () \<longrightarrow>
              (\<exists>vars. envVariables cd = Inr vars \<and>
                 new_requests w w' =
                   [GetApplications, PatchEnvsBulk (uuid app) vars, GetDeploy (uuid app)]))"
  using assms
  by (auto simp: createDeployment_def createDeployment_try_def findApplicationByName_def
        getApplications_def set_env_and_deploy_def axios_eq new_requests_def
        split: if_splits sum.splits option.splits)

lemma createDeployment_absent:
  assumes "next_outcome w \<noteq> None \<or> find (\<lambda>a. app_name a = sub) (coolify_apps w) = None"
    and "createDeployment penv sub cd w = (Inr u, w')"
  shows "\<exists>i ids vars.
           new_ids w = i # ids \<and> envVariables cd = Inr vars
         \<and> new_requests w w' =
             [GetApplications, PostApplicationsPublic (createPayload penv sub cd),
              PatchEnvsBulk i vars, GetDeploy i]
         \<and> coolify_apps w' = coolify_apps w @ [Application i sub]"
  using assms
  by (auto simp: createDeployment_def createDeployment_try_def findApplicationByName_def
        getApplications_def create_application_def take_id_def set_env_and_deploy_def
        axios_eq new_requests_def Let_def
        split: if_splits sum.splits option.splits list.splits)

lemma second_outcome:
  "next_outcome (snd (axios r w)) = nth_outcome 1 w"
  by (cases "outcomes w"; cases "tl (outcomes w)")
     (auto simp: axios_def next_outcome_def nth_outcome_def)

lemma nth_outcome_console_log: "nth_outcome n (console_log l w) = nth_outcome n w"
  by (simp add: nth_outcome_def console_log_def)

text \<open>
  C7. When the zone already holds an A record of the tenant's name and the provider
  serves the listing, \<open>POST /:id/deploy\<close> does not fail in the DNS phase: it logs that
  the record exists and runs \<open>createDeployment\<close>, whose result decides the answer, 200
  with the flag stored as deployed when it succeeds. In the whole run no DNS record is
  created; after the listing only Coolify requests are sent up to the end of
  \<open>createDeployment\<close>. When the listing of the applications is served and shows an
  application of the tenant's name, none is created and a deployment that succeeds has
  set the variables of that application and triggered its deploy, by its \<open>uuid\<close>. When
  it shows none, or is rejected, a deployment that succeeds has created the application,
  which the platform now holds, set its variables and triggered its deploy.
\<close>

theorem deploy_continues_on_existing_dns:
  assumes "\<not> isDeployed c" and "getCloudflareAPI penv = Some api" and "getCoolifyAPI penv"
    and "subdomain c \<noteq> []" and "next_outcome w = None"
    and "\<exists>r \<in> set (dns_zone w).
           rec_name r = subdomain c @ ''.'' @ domain api \<and> rec_type r = ''A''"
    and "createDeployment penv (subdomain c) (clientData_of c)
           (console_log ''Creating Coolify deployment for:''
              (console_log ''DNS record already exists for:''
                 (snd (axios (GetDnsRecords (subdomain c @ ''.'' @ domain api) ''A'')
                         (console_log ''Checking Cloudflare DNS record for:''
                            (console_log ''Starting deployment process for client:'' w))))))
         = (dep, w2)"
  shows "deploy_route penv (Some c) w =
           (case dep of
              Inl error \<Rightarrow>
                (deployment_failed error, Some c,
                 deploy_cleanup api c (console_log ''Deployment failed for client:'' w2))
            | Inr u \<Rightarrow>
                (Response 200
                   (JObj [(''message'', JStr ''Deployment successful''),
                          (''client'',
                             JObj (obj_set (toObject (c\<lparr>isDeployed := True\<rparr>))
                                     ''isDeployed'' (JBool True)))]),
                 Some (c\<lparr>isDeployed := True\<rparr>),
                 console_log ''Deployment successful for client:'' w2))
         \<and> list_all (\<lambda>q. \<not> creates_dns_record q)
              (new_requests w (snd (snd (deploy_route penv (Some c) w))))
         \<and> ''DNS record already exists for:''
              \<in> set (console (snd (snd (deploy_route penv (Some c) w))))
         \<and> (\<exists>rest. new_requests w w2 =
                      GetDnsRecords (subdomain c @ ''.'' @ domain api) ''A'' # rest
                    \<and> list_all (coolify_request (clientData_of c)) rest
                    \<and> (dep = Inr () \<longrightarrow>
                         (\<exists>i vars. envVariables (clientData_of c) = Inr vars \<and>
                            (rest = [GetApplications, PatchEnvsBulk i vars, GetDeploy i] \<or>
                             rest = [GetApplications,
                                     PostApplicationsPublic
                                       (createPayload penv (subdomain c) (clientData_of c)),
                                     PatchEnvsBulk i vars, GetDeploy i])))
                    \<and> (\<forall>app. nth_outcome 1 w = None
                           \<and> find (\<lambda>a. app_name a = subdomain c) (coolify_apps w) = Some app \<longrightarrow>
                           list_all (\<lambda>q. \<not> creates_application q) rest
                         \<and> coolify_apps w2 = coolify_apps w
                         \<and> (dep = Inr () \<longrightarrow>
                              (\<exists>vars. envVariables (clientData_of c) = Inr vars \<and>
                                 rest = [GetApplications, PatchEnvsBulk (uuid app) vars,
                                         GetDeploy (uuid app)])))
                    \<and> ((nth_outcome 1 w \<noteq> None
                          \<or> find (\<lambda>a. app_name a = subdomain c) (coolify_apps w) = None)
                         \<and> dep = Inr () \<longrightarrow>
                         (\<exists>i ids vars.
                            new_ids w = i # ids \<and> envVariables (clientData_of c) = Inr vars
                          \<and> rest = [GetApplications,
                                    PostApplicationsPublic
                                      (createPayload penv (subdomain c) (clientData_of c)),
                                    PatchEnvsBulk i vars, GetDeploy i]
                          \<and> coolify_apps w2 = coolify_apps w @ [Application i (subdomain c)])))"
proof -
  let ?start = "console_log ''Starting deployment process for client:'' w"
  let ?listed = "snd (axios (GetDnsRecords (subdomain c @ ''.'' @ domain api) ''A'')
                   (console_log ''Checking Cloudflare DNS record for:'' ?start))"
  let ?w1 = "console_log ''Creating Coolify deployment for:''
               (console_log ''DNS record already exists for:'' ?listed)"
  let ?final = "snd (snd (deploy_route penv (Some c) w))"
  have zone: "\<exists>r \<in> set (dns_zone ?start).
           rec_name r = subdomain c @ ''.'' @ domain api \<and> rec_type r = ''A''"
    using assms(6) by (simp add: console_log_def)
  have served: "next_outcome ?start = None"
    using assms(5) by simp
  have dns: "deploy_dns_phase api c ?start =
      (Inr (), console_log ''DNS record already exists for:'' ?listed)"
    using assms(4) served zone by (rule deploy_dns_phase_existing)
  have route: "deploy_route penv (Some c) w =
           (case dep of
              Inl error \<Rightarrow>
                (deployment_failed error, Some c,
                 deploy_cleanup api c (console_log ''Deployment failed for client:'' w2))
            | Inr u \<Rightarrow>
                (Response 200
                   (JObj [(''message'', JStr ''Deployment successful''),
                          (''client'',
                             JObj (obj_set (toObject (c\<lparr>isDeployed := True\<rparr>))
                                     ''isDeployed'' (JBool True)))]),
                 Some (c\<lparr>isDeployed := True\<rparr>),
                 console_log ''Deployment successful for client:'' w2))"
    using assms(1-3,7) dns by (cases dep) (simp_all add: deploy_route_def)
  have sent1: "sent ?w1 = sent w @ [GetDnsRecords (subdomain c @ ''.'' @ domain api) ''A'']"
    by (simp add: axios_eq console_log_def)
  have cons1: "''DNS record already exists for:'' \<in> set (console ?w1)"
    by (simp add: axios_eq console_log_def)
  have outcome1: "next_outcome ?w1 = nth_outcome 1 w"
    by (simp add: second_outcome nth_outcome_console_log)
  have "coolify_apps ?w1 = coolify_apps w" "new_ids ?w1 = new_ids w"
    by (simp_all add: console_log_def axios_eq)
  note world1 = outcome1 this
  have phase: "sends_only (coolify_request (clientData_of c)) ?w1 w2"
    using sends_only_createDeployment [of "clientData_of c" ?w1 penv "subdomain c"] assms(7)
    by simp
  then obtain rest where rest: "sent w2 = sent ?w1 @ rest"
      "list_all (coolify_request (clientData_of c)) rest"
    by (auto simp: sends_only_def)
  have new2: "new_requests w w2 =
      GetDnsRecords (subdomain c @ ''.'' @ domain api) ''A'' # rest"
    using rest(1) sent1 by (simp add: new_requests_def)
  have new12: "new_requests ?w1 w2 = rest"
    using rest(1) by (simp add: new_requests_def)
  have success: "dep = Inr () \<longrightarrow>
      (\<exists>i vars. envVariables (clientData_of c) = Inr vars \<and>
         (rest = [GetApplications, PatchEnvsBulk i vars, GetDeploy i] \<or>
          rest = [GetApplications,
                  PostApplicationsPublic (createPayload penv (subdomain c) (clientData_of c)),
                  PatchEnvsBulk i vars, GetDeploy i]))"
    using createDeployment_success [of penv "subdomain c" "clientData_of c" ?w1 "()" w2]
      assms(7) new12 by auto
  have reuse: "\<forall>app. nth_outcome 1 w = None
                 \<and> find (\<lambda>a. app_name a = subdomain c) (coolify_apps w) = Some app \<longrightarrow>
                 list_all (\<lambda>q. \<not> creates_application q) rest
               \<and> coolify_apps w2 = coolify_apps w
               \<and> (dep = Inr () \<longrightarrow>
                    (\<exists>vars. envVariables (clientData_of c) = Inr vars \<and>
                       rest = [GetApplications, PatchEnvsBulk (uuid app) vars,
                               GetDeploy (uuid app)]))"
  proof (intro allI impI)
    fix app
    assume "nth_outcome 1 w = None
            \<and> find (\<lambda>a. app_name a = subdomain c) (coolify_apps w) = Some app"
    then have "next_outcome ?w1 = None"
        "find (\<lambda>a. app_name a = subdomain c) (coolify_apps ?w1) = Some app"
      unfolding world1 by simp_all
    from createDeployment_existing [OF this assms(7)]
    show "list_all (\<lambda>q. \<not> creates_application q) rest
               \<and> coolify_apps w2 = coolify_apps w
               \<and> (dep = Inr () \<longrightarrow>
                    (\<exists>vars. envVariables (clientData_of c) = Inr vars \<and>
                       rest = [GetApplications, PatchEnvsBulk (uuid app) vars,
                               GetDeploy (uuid app)]))"
      unfolding new12 world1 .
  qed
  have create: "(nth_outcome 1 w \<noteq> None
                 \<or> find (\<lambda>a. app_name a = subdomain c) (coolify_apps w) = None)
                \<and> dep = Inr () \<longrightarrow>
                (\<exists>i ids vars.
                   new_ids w = i # ids \<and> envVariables (clientData_of c) = Inr vars
                 \<and> rest = [GetApplications,
                           PostApplicationsPublic
                             (createPayload penv (subdomain c) (clientData_of c)),
                           PatchEnvsBulk i vars, GetDeploy i]
                 \<and> coolify_apps w2 = coolify_apps w @ [Application i (subdomain c)])"
  proof (intro impI)
    assume a: "(nth_outcome 1 w \<noteq> None
                 \<or> find (\<lambda>a. app_name a = subdomain c) (coolify_apps w) = None)
                \<and> dep = Inr ()"
    then have absent: "next_outcome ?w1 \<noteq> None
        \<or> find (\<lambda>a. app_name a = subdomain c) (coolify_apps ?w1) = None"
      unfolding world1 by simp
    have run: "createDeployment penv (subdomain c) (clientData_of c) ?w1 = (Inr (), w2)"
      using assms(7) a by simp
    from createDeployment_absent [OF absent run]
    show "\<exists>i ids vars.
                   new_ids w = i # ids \<and> envVariables (clientData_of c) = Inr vars
                 \<and> rest = [GetApplications,
                           PostApplicationsPublic
                             (createPayload penv (subdomain c) (clientData_of c)),
                           PatchEnvsBulk i vars, GetDeploy i]
                 \<and> coolify_apps w2 = coolify_apps w @ [Application i (subdomain c)]"
      unfolding new12 world1 .
  qed
  have quiet2: "sends_only (\<lambda>q. \<not> creates_dns_record q) w w2"
    using rest sent1 by (auto simp: sends_only_def list_all_iff dest: coolify_request_no_dns)
  have "sends_only (\<lambda>q. \<not> creates_dns_record q) w ?final"
  proof (cases dep)
    case (Inl error)
    have "sends_only (\<lambda>q. \<not> creates_dns_record q) w2
            (deploy_cleanup api c (console_log ''Deployment failed for client:'' w2))"
      using sends_only_deploy_cleanup [of "console_log ''Deployment failed for client:'' w2" api c]
      by simp
    with quiet2 Inl route show ?thesis
      by (auto intro: sends_only_trans)
  next
    case (Inr u)
    with quiet2 route show ?thesis by simp
  qed
  then have quiet: "list_all (\<lambda>q. \<not> creates_dns_record q) (new_requests w ?final)"
    by (auto dest: sends_only_new_requests)
  have cons2: "''DNS record already exists for:'' \<in> set (console w2)"
    using createDeployment_keeps(1) [of penv "subdomain c" "clientData_of c" ?w1] assms(7) cons1
    by simp
  have cons: "''DNS record already exists for:'' \<in> set (console ?final)"
  proof (cases dep)
    case (Inl error)
    have "''DNS record already exists for:''
            \<in> set (console (console_log ''Deployment failed for client:'' w2))"
      using cons2 by (simp add: console_log_def)
    with console_deploy_cleanup Inl route show ?thesis by auto
  next
    case (Inr u)
    with cons2 route show ?thesis by (simp add: console_log_def)
  qed
  have tail: "\<exists>rest. new_requests w w2 =
                      GetDnsRecords (subdomain c @ ''.'' @ domain api) ''A'' # rest
                    \<and> list_all (coolify_request (clientData_of c)) rest
                    \<and> (dep = Inr () \<longrightarrow>
                         (\<exists>i vars. envVariables (clientData_of c) = Inr vars \<and>
                            (rest = [GetApplications, PatchEnvsBulk i vars, GetDeploy i] \<or>
                             rest = [GetApplications,
                                     PostApplicationsPublic
                                       (createPayload penv (subdomain c) (clientData_of c)),
                                     PatchEnvsBulk i vars, GetDeploy i])))
                    \<and> (\<forall>app. nth_outcome 1 w = None
                           \<and> find (\<lambda>a. app_name a = subdomain c) (coolify_apps w) = Some app \<longrightarrow>
                           list_all (\<lambda>q. \<not> creates_application q) rest
                         \<and> coolify_apps w2 = coolify_apps w
                         \<and> (dep = Inr () \<longrightarrow>
                              (\<exists>vars. envVariables (clientData_of c) = Inr vars \<and>
                                 rest = [GetApplications, PatchEnvsBulk (uuid app) vars,
                                         GetDeploy (uuid app)])))
                    \<and> ((nth_outcome 1 w \<noteq> None
                          \<or> find (\<lambda>a. app_name a = subdomain c) (coolify_apps w) = None)
                         \<and> dep = Inr () \<longrightarrow>
                         (\<exists>i ids vars.
                            new_ids w = i # ids \<and> envVariables (clientData_of c) = Inr vars
                          \<and> rest = [GetApplications,
                                    PostApplicationsPublic
                                      (createPayload penv (subdomain c) (clientData_of c)),
                                    PatchEnvsBulk i vars, GetDeploy i]
                          \<and> coolify_apps w2 = coolify_apps w @ [Application i (subdomain c)]))"
    by (rule exI [of _ rest]) (intro conjI new2 rest(2) success reuse create)
  show ?thesis
    by (intro conjI route quiet cons tail)
qed

theorem deploy_continues_on_existing_dns_witness:
  "deploy_route sample_env (Some acme) (world_of [acme_record] [] []) =
     (Response 200
        (JObj [(''message'', JStr ''Deployment successful''),
               (''client'',
                  JObj (obj_set (toObject (acme\<lparr>isDeployed := True\<rparr>))
                          ''isDeployed'' (JBool True)))]),
      Some (acme\<lparr>isDeployed := True\<rparr>),
      \<lparr>dns_zone = [acme_record], coolify_apps = [Application ''id1'' ''acme''],
       outcomes = [], new_ids = [''id2''],
       sent = [GetDnsRecords ''acme.example.com'' ''A'', GetApplications,
               PostApplicationsPublic
                 (createPayload sample_env (subdomain acme) (clientData_of acme)),
               PatchEnvsBulk ''id1'' acme_vars, GetDeploy ''id1''],
       console = [''Starting deployment process for client:'',
                  ''Checking Cloudflare DNS record for:'', ''DNS record already exists for:'',
                  ''Creating Coolify deployment for:'',
                  ''Deployment successful for client:'']\<rparr>)
   \<and> deploy_route sample_env (Some acme)
       (world_of [acme_record] [Application ''b7'' ''other'', Application ''a1'' ''acme''] []) =
     (Response 200
        (JObj [(''message'', JStr ''Deployment successful''),
               (''client'',
                  JObj (obj_set (toObject (acme\<lparr>isDeployed := True\<rparr>))
                          ''isDeployed'' (JBool True)))]),
      Some (acme\<lparr>isDeployed := True\<rparr>),
      \<lparr>dns_zone = [acme_record],
       coolify_apps = [Application ''b7'' ''other'', Application ''a1'' ''acme''],
       outcomes = [], new_ids = [''id1'', ''id2''],
       sent = [GetDnsRecords ''acme.example.com'' ''A'', GetApplications,
               PatchEnvsBulk ''a1'' acme_vars, GetDeploy ''a1''],
       console = [''Starting deployment process for client:'',
                  ''Checking Cloudflare DNS record for:'', ''DNS record already exists for:'',
                  ''Creating Coolify deployment for:'',
                  ''Deployment successful for client:'']\<rparr>)"
proof -
  let ?w = "world_of [acme_record] [] []"
  let ?v = "world_of [acme_record] [Application ''b7'' ''other'', Application ''a1'' ''acme''] []"
  have h1: "\<not> isDeployed acme" by simp
  have h4: "subdomain acme \<noteq> []" by simp
  have a5: "next_outcome ?w = None" by (simp add: next_outcome_def)
  have a6: "\<exists>r \<in> set (dns_zone ?w).
              rec_name r = subdomain acme @ ''.'' @ domain sample_api \<and> rec_type r = ''A''"
    by simp
  have a7: "createDeployment sample_env (subdomain acme) (clientData_of acme)
           (console_log ''Creating Coolify deployment for:''
              (console_log ''DNS record already exists for:''
                 (snd (axios (GetDnsRecords (subdomain acme @ ''.'' @ domain sample_api) ''A'')
                         (console_log ''Checking Cloudflare DNS record for:''
                            (console_log ''Starting deployment process for client:'' ?w))))))
         = (Inr (),
            \<lparr>dns_zone = [acme_record], coolify_apps = [Application ''id1'' ''acme''],
             outcomes = [], new_ids = [''id2''],
             sent = [GetDnsRecords ''acme.example.com'' ''A'', GetApplications,
                     PostApplicationsPublic
                       (createPayload sample_env (subdomain acme) (clientData_of acme)),
                     PatchEnvsBulk ''id1'' acme_vars, GetDeploy ''id1''],
             console = [''Starting deployment process for client:'',
                        ''Checking Cloudflare DNS record for:'',
                        ''DNS record already exists for:'',
                        ''Creating Coolify deployment for:'']\<rparr>)"
    by (simp add: createDeployment_def createDeployment_try_def findApplicationByName_def
          getApplications_def create_application_def set_env_and_deploy_def axios_def
          take_id_def console_log_def env_set_def env_val_def acme_envVariables)
  have b5: "next_outcome ?v = None" by (simp add: next_outcome_def)
  have b6: "\<exists>r \<in> set (dns_zone ?v).
              rec_name r = subdomain acme @ ''.'' @ domain sample_api \<and> rec_type r = ''A''"
    by simp
  have b7: "createDeployment sample_env (subdomain acme) (clientData_of acme)
           (console_log ''Creating Coolify deployment for:''
              (console_log ''DNS record already exists for:''
                 (snd (axios (GetDnsRecords (subdomain acme @ ''.'' @ domain sample_api) ''A'')
                         (console_log ''Checking Cloudflare DNS record for:''
                            (console_log ''Starting deployment process for client:'' ?v))))))
         = (Inr (),
            \<lparr>dns_zone = [acme_record],
             coolify_apps = [Application ''b7'' ''other'', Application ''a1'' ''acme''],
             outcomes = [], new_ids = [''id1'', ''id2''],
             sent = [GetDnsRecords ''acme.example.com'' ''A'', GetApplications,
                     PatchEnvsBulk ''a1'' acme_vars, GetDeploy ''a1''],
             console = [''Starting deployment process for client:'',
                        ''Checking Cloudflare DNS record for:'',
                        ''DNS record already exists for:'',
                        ''Creating Coolify deployment for:'']\<rparr>)"
    by (simp add: createDeployment_def createDeployment_try_def findApplicationByName_def
          getApplications_def set_env_and_deploy_def axios_def
          console_log_def env_set_def env_val_def acme_envVariables)
  have created: "deploy_route sample_env (Some acme) ?w =
     (Response 200
        (JObj [(''message'', JStr ''Deployment successful''),
               (''client'',
                  JObj (obj_set (toObject (acme\<lparr>isDeployed := True\<rparr>))
                          ''isDeployed'' (JBool True)))]),
      Some (acme\<lparr>isDeployed := True\<rparr>),
      \<lparr>dns_zone = [acme_record], coolify_apps = [Application ''id1'' ''acme''],
       outcomes = [], new_ids = [''id2''],
       sent = [GetDnsRecords ''acme.example.com'' ''A'', GetApplications,
               PostApplicationsPublic
                 (createPayload sample_env (subdomain acme) (clientData_of acme)),
               PatchEnvsBulk ''id1'' acme_vars, GetDeploy ''id1''],
       console = [''Starting deployment process for client:'',
                  ''Checking Cloudflare DNS record for:'', ''DNS record already exists for:'',
                  ''Creating Coolify deployment for:'',
                  ''Deployment successful for client:'']\<rparr>)"
    using deploy_continues_on_existing_dns [OF h1 sample_services h4 a5 a6 a7]
    by (simp add: console_log_def)
  have reused: "deploy_route sample_env (Some acme) ?v =
     (Response 200
        (JObj [(''message'', JStr ''Deployment successful''),
               (''client'',
                  JObj (obj_set (toObject (acme\<lparr>isDeployed := True\<rparr>))
                          ''isDeployed'' (JBool True)))]),
      Some (acme\<lparr>isDeployed := True\<rparr>),
      \<lparr>dns_zone = [acme_record],
       coolify_apps = [Application ''b7'' ''other'', Application ''a1'' ''acme''],
       outcomes = [], new_ids = [''id1'', ''id2''],
       sent = [GetDnsRecords ''acme.example.com'' ''A'', GetApplications,
               PatchEnvsBulk ''a1'' acme_vars, GetDeploy ''a1''],
       console = [''Starting deployment process for client:'',
                  ''Checking Cloudflare DNS record for:'', ''DNS record already exists for:'',
                  ''Creating Coolify deployment for:'',
                  ''Deployment successful for client:'']\<rparr>)"
    using deploy_continues_on_existing_dns [OF h1 sample_services h4 b5 b6 b7]
    by (simp add: console_log_def)
  show ?thesis
    using created reused by (rule conjI)
qed

section \<open>C8: the DNS availability check\<close>

text \<open>
  C8. When the provider serves the listing, \<open>checkSubdomainAvailability\<close> returns true
  exactly when the zone holds no A record of the full name, however many there are.
\<close>

theorem availability_negates_existence:
  assumes "sub \<noteq> []" and "next_outcome w = None"
  shows "fst (checkSubdomainAvailability api sub w) =
           Inr (\<not> (\<exists>r \<in> set (dns_zone w).
                      rec_name r = sub @ ''.'' @ domain api \<and> rec_type r = ''A''))"
  using assms
  by (simp add: checkSubdomainAvailability_def list_dns_records_def axios_eq
        filter_empty_conv)

theorem availability_negates_existence_witness:
  "fst (checkSubdomainAvailability sample_api ''acme''
          (world_of [acme_record, DnsRecord ''r2'' ''A'' ''acme.example.com'' ''10.0.0.2''] [] []))
     = Inr False"
  using availability_negates_existence
    [of "''acme''"
        "world_of [acme_record, DnsRecord ''r2'' ''A'' ''acme.example.com'' ''10.0.0.2''] [] []"
        sample_api]
  by (simp add: next_outcome_def)

section \<open>C9: deploying a deployed tenant\<close>

text \<open>
  C9. \<open>POST /:id/deploy\<close> for a client whose flag reads deployed answers 400 and leaves
  the client and the world as they were: no request is sent.
\<close>

theorem deploy_rejects_deployed_client:
  assumes "isDeployed c"
  shows "deploy_route penv (Some c) w =
           (Response 400 (JObj [(''error'', JStr ''Client is already deployed'')]), Some c, w)"
  using assms by (simp add: deploy_route_def)

theorem deploy_rejects_deployed_client_witness:
  "deploy_route sample_env (Some (acme\<lparr>isDeployed := True\<rparr>)) (world_of [acme_record] [] []) =
     (Response 400 (JObj [(''error'', JStr ''Client is already deployed'')]),
      Some (acme\<lparr>isDeployed := True\<rparr>), world_of [acme_record] [] [])"
  using deploy_rejects_deployed_client
    [of "acme\<lparr>isDeployed := True\<rparr>" sample_env "world_of [acme_record] [] []"]
  by simp

section \<open>C10: when the HTML variable is sent\<close>

text \<open>
  C10. The variables that \<open>createDeployment\<close> or \<open>updateDeployment\<close> sends contain
  \<open>NEXT_PUBLIC_CUSTOM_HTML_BASE64\<close> exactly when \<open>htmlCode\<close> is a string that is
  not empty once trimmed. Changing \<open>deploymentType\<close> does not change that.
\<close>

theorem html_variable_iff_nonblank_html:
  assumes "createDeployment penv sub cd w = (r, w') \<or> updateDeployment penv sub cd w = (r, w')"
    and "PatchEnvsBulk i vars \<in> set (new_requests w w')"
  shows "(''NEXT_PUBLIC_CUSTOM_HTML_BASE64'' \<in> key ` set vars) =
           (\<exists>html. opt_get (JObj cd) ''htmlCode'' = JStr html \<and> js_trim html \<noteq> [])
         \<and> (\<forall>t vars'. envVariables (obj_set cd ''deploymentType'' t) = Inr vars' \<longrightarrow>
               (''NEXT_PUBLIC_CUSTOM_HTML_BASE64'' \<in> key ` set vars') =
               (''NEXT_PUBLIC_CUSTOM_HTML_BASE64'' \<in> key ` set vars))"
proof -
  have vars: "envVariables cd = Inr vars"
    using assms by (rule patch_of_deployment)
  have here: "(''NEXT_PUBLIC_CUSTOM_HTML_BASE64'' \<in> key ` set vars) =
           (\<exists>html. opt_get (JObj cd) ''htmlCode'' = JStr html \<and> js_trim html \<noteq> [])"
    using vars by (rule envVariables_html_key)
  have there: "(''NEXT_PUBLIC_CUSTOM_HTML_BASE64'' \<in> key ` set vars') =
           (\<exists>html. opt_get (JObj cd) ''htmlCode'' = JStr html \<and> js_trim html \<noteq> [])"
    if "envVariables (obj_set cd ''deploymentType'' t) = Inr vars'" for t vars'
    using envVariables_html_key [OF that]
    by (simp add: map_of_obj_set_other)
  show ?thesis
    using here there by blast
qed

theorem html_variable_iff_nonblank_html_witness:
  "PatchEnvsBulk ''id1'' blank_vars
     \<in> set (new_requests (world_of [] [] [])
              (snd (createDeployment sample_env ''acme''
                      (clientData_of (acme\<lparr>htmlCode := JStr ''   ''\<rparr>)) (world_of [] [] []))))
   \<and> ''NEXT_PUBLIC_CUSTOM_HTML_BASE64'' \<notin> key ` set blank_vars
   \<and> PatchEnvsBulk ''a1'' template_vars
     \<in> set (new_requests (world_of [] [Application ''a1'' ''acme''] [])
              (snd (updateDeployment sample_env ''acme''
                      (clientData_of (acme\<lparr>deploymentType := JStr ''template''\<rparr>))
                      (world_of [] [Application ''a1'' ''acme''] []))))
   \<and> ''NEXT_PUBLIC_CUSTOM_HTML_BASE64'' \<in> key ` set template_vars"
proof -
  let ?blank = "clientData_of (acme\<lparr>htmlCode := JStr ''   ''\<rparr>)"
  let ?template = "clientData_of (acme\<lparr>deploymentType := JStr ''template''\<rparr>)"
  let ?w = "world_of [] [] []"
  let ?v = "world_of [] [Application ''a1'' ''acme''] []"
  let ?create = "createDeployment sample_env ''acme'' ?blank ?w"
  let ?update = "updateDeployment sample_env ''acme'' ?template ?v"
  have a1: "?create = (fst ?create, snd ?create) \<or>
            updateDeployment sample_env ''acme'' ?blank ?w = (fst ?create, snd ?create)"
    by simp
  have a2: "PatchEnvsBulk ''id1'' blank_vars \<in> set (new_requests ?w (snd ?create))"
    unfolding blank_createDeployment by (simp add: new_requests_def)
  have b1: "createDeployment sample_env ''acme'' ?template ?v = (fst ?update, snd ?update) \<or>
            ?update = (fst ?update, snd ?update)"
    by simp
  have b2: "PatchEnvsBulk ''a1'' template_vars \<in> set (new_requests ?v (snd ?update))"
    unfolding template_updateDeployment by (simp add: new_requests_def)
  have blank: "\<not> (\<exists>html. opt_get (JObj ?blank) ''htmlCode'' = JStr html \<and> js_trim html \<noteq> [])"
    by (simp add: clientData_of_def sample_trims)
  have html: "\<exists>html. opt_get (JObj ?template) ''htmlCode'' = JStr html \<and> js_trim html \<noteq> []"
    by (simp add: clientData_of_def sample_trims)
  have "''NEXT_PUBLIC_CUSTOM_HTML_BASE64'' \<notin> key ` set blank_vars"
    using html_variable_iff_nonblank_html [OF a1 a2] blank by blast
  moreover have "''NEXT_PUBLIC_CUSTOM_HTML_BASE64'' \<in> key ` set template_vars"
    using html_variable_iff_nonblank_html [OF b1 b2] html by blast
  ultimately show ?thesis
    using a2 b2 by blast
qed

end
